theory Spec2Isabelle
  imports Complex_Main
begin

chapter \<open>The embedding\<close>

section \<open>File correlator: \<open>FileUtils.find_file_by_id\<close> (utils/file\_utils.py)\<close>

text \<open>
  Exceptions of the Python program are values of the type \<open>exn\<close>; a computation that can
  raise returns \<open>exn + 'a\<close> with \<open>Inl\<close> for the raised exception.
\<close>

datatype exn = OSError | AttributeError | TypeError | RuntimeError | ValueError

text \<open>
  An entry yielded by \<open>TEMP_FOLDER.glob('*')\<close>: its final path component and what
  \<open>is_file()\<close> answers for it. The listing is kept in the order in which \<open>glob\<close> yields it.
\<close>

record dir_entry =
  entry_name :: string
  entry_is_file :: bool

text \<open>\<open>str.rfind('.')\<close>: the index of the last period, \<open>-1\<close> when there is none.\<close>

definition rfind_dot :: "string \<Rightarrow> int" where
  "rfind_dot name =
     (if CHR ''.'' \<in> set name
      then int (length name) - 1 - int (length (takeWhile (\<lambda>c. c \<noteq> CHR ''.'') (rev name)))
      else - 1)"

text \<open>
  \<open>PurePath.stem\<close>: the name up to its last period, unless that period is the first or the
  last character of the name (then the name has no suffix and is its own stem).
\<close>

definition stem :: "string \<Rightarrow> string" where
  "stem name =
     (let i = rfind_dot name
      in if 0 < i \<and> i < int (length name) - 1 then take (nat i) name else name)"

text \<open>\<open>str.startswith\<close>.\<close>

definition startswith :: "string \<Rightarrow> string \<Rightarrow> bool" where
  "startswith s p \<longleftrightarrow> take (length p) s = p"

text \<open>\<open>str(TEMP_FOLDER / name)\<close>.\<close>

definition path_str :: "string \<Rightarrow> string \<Rightarrow> string" where
  "path_str folder name = folder @ ''/'' @ name"

text \<open>
  The first loop of \<open>find_file_by_id\<close>: return the first regular file whose stem is the
  identifier.
\<close>

fun exact_scan :: "string \<Rightarrow> string \<Rightarrow> dir_entry list \<Rightarrow> string option" where
  "exact_scan folder file_id [] = None"
| "exact_scan folder file_id (e # es) =
     (if entry_is_file e
      then (let filename_without_ext = stem (entry_name e)
            in if filename_without_ext = file_id
               then Some (path_str folder (entry_name e))
               else exact_scan folder file_id es)
      else exact_scan folder file_id es)"

text \<open>
  The second loop: return the first regular file whose stem starts with the identifier.
\<close>

fun fuzzy_scan :: "string \<Rightarrow> string \<Rightarrow> dir_entry list \<Rightarrow> string option" where
  "fuzzy_scan folder file_id [] = None"
| "fuzzy_scan folder file_id (e # es) =
     (if entry_is_file e
      then (let filename_without_ext = stem (entry_name e)
            in if startswith filename_without_ext file_id
               then Some (path_str folder (entry_name e))
               else fuzzy_scan folder file_id es)
      else fuzzy_scan folder file_id es)"

text \<open>
  \<open>find_file_by_id\<close>. The directory scan is the argument \<open>listing\<close>: \<open>Inr\<close> of the entries
  when \<open>glob\<close> can be iterated, \<open>Inl\<close> of the exception when it raises (for instance when
  the environment variable \<open>TEMP_FOLDER\<close> is set, so that the configuration value is a
  \<open>str\<close> without a \<open>glob\<close> method). The whole body is inside \<open>try ... except Exception\<close>,
  which returns \<open>None\<close>.
\<close>

definition find_file_by_id :: "string \<Rightarrow> exn + dir_entry list \<Rightarrow> string \<Rightarrow> string option" where
  "find_file_by_id folder listing file_id =
     (case listing of
        Inl e \<Rightarrow> None
      | Inr entries \<Rightarrow>
          (case exact_scan folder file_id entries of
             Some p \<Rightarrow> Some p
           | None \<Rightarrow> fuzzy_scan folder file_id entries))"

text \<open>The two matching conditions, for stating the properties below.\<close>

definition exact_match :: "string \<Rightarrow> dir_entry \<Rightarrow> bool" where
  "exact_match file_id e \<longleftrightarrow> entry_is_file e \<and> stem (entry_name e) = file_id"

definition prefix_match :: "string \<Rightarrow> dir_entry \<Rightarrow> bool" where
  "prefix_match file_id e \<longleftrightarrow> entry_is_file e \<and> startswith (stem (entry_name e)) file_id"

section \<open>Subtitle formatter (services/whisper\_service.py)\<close>

subsection \<open>Python primitives\<close>

text \<open>
  A Python \<open>float\<close> is modelled by the rational number it denotes, and the arithmetic on
  it is exact. On the program's doubles, for non-negative times below \<open>2\<^sup>5\<^sup>3\<close> seconds, the
  floor division \<open>//\<close> and the remainder \<open>%\<close> of the time-code conversion are exact as well;
  the product \<open>(seconds % 1) * 1000\<close> is rounded to the nearest double by the machine, so the
  millisecond field computed here is the program's or one less than it (one less where
  the machine's product is rounded up to a whole number). The properties proved of the
  formatter below are about the layout of its output, not about which millisecond is
  printed.
\<close>

definition py_floordiv :: "rat \<Rightarrow> rat \<Rightarrow> rat" where
  "py_floordiv a b = of_int \<lfloor>a / b\<rfloor>"

definition py_mod :: "rat \<Rightarrow> rat \<Rightarrow> rat" where
  "py_mod a b = a - b * of_int \<lfloor>a / b\<rfloor>"

text \<open>\<open>int(x)\<close> of a float truncates towards zero.\<close>

definition py_int :: "rat \<Rightarrow> int" where
  "py_int x = (if 0 \<le> x then \<lfloor>x\<rfloor> else \<lceil>x\<rceil>)"

definition digit_char :: "nat \<Rightarrow> char" where
  "digit_char d = ''0123456789'' ! d"

text \<open>The decimal digits of a natural number, most significant first.\<close>

function decimal :: "nat \<Rightarrow> string" where
  "decimal n = (if n < 10 then [digit_char n] else decimal (n div 10) @ [digit_char (n mod 10)])"
  by pat_completeness auto
termination
  by (relation "measure id") auto

declare decimal.simps [simp del]

text \<open>\<open>str(n)\<close> and the f-string \<open>{n}\<close> of an \<open>int\<close>.\<close>

definition str_int :: "int \<Rightarrow> string" where
  "str_int n = (if n < 0 then CHR ''-'' # decimal (nat (- n)) else decimal (nat n))"

definition zfill :: "nat \<Rightarrow> string \<Rightarrow> string" where
  "zfill width s = replicate (width - length s) (CHR ''0'') @ s"

text \<open>
  The format specification \<open>0{width}d\<close> of an f-string (\<open>{hours:02d}\<close>): zero padding to
  at least \<open>width\<close> characters, the sign counted in the width and put before the zeros.
\<close>

definition format_0d :: "nat \<Rightarrow> int \<Rightarrow> string" where
  "format_0d width n =
     (if n < 0 then CHR ''-'' # zfill (width - 1) (decimal (nat (- n)))
      else zfill width (decimal (nat n)))"

abbreviation NL :: char where
  "NL \<equiv> CHR 0x0A"

subsection \<open>Time codes\<close>

text \<open>\<open>_seconds_to_srt_time\<close>: a comma before the milliseconds.\<close>

definition seconds_to_srt_time :: "rat \<Rightarrow> string" where
  "seconds_to_srt_time seconds =
     (let hours = py_int (py_floordiv seconds 3600);
          minutes = py_int (py_floordiv (py_mod seconds 3600) 60);
          secs = py_int (py_mod seconds 60);
          millisecs = py_int (py_mod seconds 1 * 1000)
      in format_0d 2 hours @ '':'' @ format_0d 2 minutes @ '':'' @ format_0d 2 secs
           @ '','' @ format_0d 3 millisecs)"

text \<open>\<open>_seconds_to_vtt_time\<close>: a period before the milliseconds.\<close>

definition seconds_to_vtt_time :: "rat \<Rightarrow> string" where
  "seconds_to_vtt_time seconds =
     (let hours = py_int (py_floordiv seconds 3600);
          minutes = py_int (py_floordiv (py_mod seconds 3600) 60);
          secs = py_int (py_mod seconds 60);
          millisecs = py_int (py_mod seconds 1 * 1000)
      in format_0d 2 hours @ '':'' @ format_0d 2 minutes @ '':'' @ format_0d 2 secs
           @ ''.'' @ format_0d 3 millisecs)"

subsection \<open>Renderers\<close>

text \<open>A segment dictionary \<open>{'start': ..., 'end': ..., 'text': ...}\<close>.\<close>

record segment =
  seg_start :: rat
  seg_end :: rat
  seg_text :: string

text \<open>
  The loop of \<open>_generate_srt_content\<close>: \<open>i\<close> is the counter of \<open>enumerate(segments, 1)\<close>,
  \<open>srt_content\<close> the string built so far.
\<close>

fun srt_loop :: "int \<Rightarrow> segment list \<Rightarrow> string \<Rightarrow> string" where
  "srt_loop i [] srt_content = srt_content"
| "srt_loop i (seg # segments) srt_content =
     (let start_time = seconds_to_srt_time (seg_start seg);
          end_time = seconds_to_srt_time (seg_end seg);
          c1 = srt_content @ str_int i @ [NL];
          c2 = c1 @ start_time @ '' --> '' @ end_time @ [NL];
          c3 = c2 @ seg_text seg @ [NL, NL]
      in srt_loop (i + 1) segments c3)"

definition generate_srt_content :: "segment list \<Rightarrow> string" where
  "generate_srt_content segments = srt_loop 1 segments ''''"

text \<open>The loop of \<open>_generate_vtt_content\<close>.\<close>

fun vtt_loop :: "segment list \<Rightarrow> string \<Rightarrow> string" where
  "vtt_loop [] vtt_content = vtt_content"
| "vtt_loop (seg # segments) vtt_content =
     (let start_time = seconds_to_vtt_time (seg_start seg);
          end_time = seconds_to_vtt_time (seg_end seg);
          c1 = vtt_content @ start_time @ '' --> '' @ end_time @ [NL];
          c2 = c1 @ seg_text seg @ [NL, NL]
      in vtt_loop segments c2)"

definition generate_vtt_content :: "segment list \<Rightarrow> string" where
  "generate_vtt_content segments = vtt_loop segments (''WEBVTT'' @ [NL, NL])"

text \<open>
  The layout the specification describes, for comparison with the two loops: the block of
  one cue in format A, the block with index \<open>n\<close> in format B.
\<close>

definition vtt_block :: "segment \<Rightarrow> string" where
  "vtt_block seg =
     seconds_to_vtt_time (seg_start seg) @ '' --> '' @ seconds_to_vtt_time (seg_end seg) @ [NL]
       @ seg_text seg @ [NL] @ [NL]"

definition srt_block :: "nat \<Rightarrow> segment \<Rightarrow> string" where
  "srt_block n seg =
     str_int (int n) @ [NL]
       @ seconds_to_srt_time (seg_start seg) @ '' --> '' @ seconds_to_srt_time (seg_end seg) @ [NL]
       @ seg_text seg @ [NL] @ [NL]"

text \<open>The blocks of format B for a segment sequence, numbered from \<open>first\<close>.\<close>

fun srt_blocks :: "nat \<Rightarrow> segment list \<Rightarrow> string list" where
  "srt_blocks first [] = []"
| "srt_blocks first (seg # segments) = srt_block first seg # srt_blocks (Suc first) segments"

text \<open>Shape of a time code: \<open>sep\<close> is the character before the three millisecond digits.\<close>

definition is_digit :: "char \<Rightarrow> bool" where
  "is_digit c \<longleftrightarrow> c \<in> set ''0123456789''"

definition timecode_shape :: "char \<Rightarrow> string \<Rightarrow> bool" where
  "timecode_shape sep t \<longleftrightarrow>
     length t = 12 \<and> t ! 2 = CHR '':'' \<and> t ! 5 = CHR '':'' \<and> t ! 8 = sep \<and>
     list_all is_digit (take 2 t) \<and> list_all is_digit (take 2 (drop 3 t)) \<and>
     list_all is_digit (take 2 (drop 6 t)) \<and> list_all is_digit (drop 9 t)"

text \<open>The number a string of decimal digits denotes.\<close>

definition digit_value :: "char \<Rightarrow> nat" where
  "digit_value c = of_char c - 48"

definition digits_value :: "string \<Rightarrow> nat" where
  "digits_value s = foldl (\<lambda>acc c. 10 * acc + digit_value c) 0 s"

section \<open>Paths, clock and files\<close>

subsection \<open>\<open>pathlib\<close> paths (POSIX flavour)\<close>

text \<open>
  A \<open>Path\<close> is its root (\<open>/\<close>, \<open>//\<close> or empty for a relative path) and its components. The
  operations are lexical, as in \<open>pathlib\<close>: a component \<open>..\<close> is kept as it is.
\<close>

record path =
  path_root :: string
  path_parts :: "string list"

text \<open>\<open>str.split(sep)\<close> for a one-character separator.\<close>

fun split_sep :: "char \<Rightarrow> string \<Rightarrow> string list" where
  "split_sep c [] = [[]]"
| "split_sep c (x # xs) =
     (if x = c then [] # split_sep c xs
      else (case split_sep c xs of
              [] \<Rightarrow> [[x]]
            | y # ys \<Rightarrow> (x # y) # ys))"

text \<open>\<open>'/'.join(parts)\<close>.\<close>

fun join_sep :: "string list \<Rightarrow> string" where
  "join_sep [] = []"
| "join_sep [p] = p"
| "join_sep (p # q # ps) = p @ ''/'' @ join_sep (q # ps)"

text \<open>
  \<open>Path(s)\<close>: empty components and \<open>.\<close> components are dropped; exactly two leading slashes
  are a root of their own.
\<close>

definition parse_path :: "string \<Rightarrow> path" where
  "parse_path s =
     \<lparr>path_root = (if startswith s ''//'' \<and> \<not> startswith s ''///'' then ''//''
              else if startswith s ''/'' then ''/'' else ''''),
      path_parts = filter (\<lambda>p. p \<noteq> '''' \<and> p \<noteq> ''.'') (split_sep (CHR ''/'') s)\<rparr>"

text \<open>\<open>str(p)\<close>.\<close>

definition path_to_str :: "path \<Rightarrow> string" where
  "path_to_str p = (if path_root p = '''' \<and> path_parts p = [] then ''.'' else path_root p @ join_sep (path_parts p))"

text \<open>\<open>p / s\<close>: an absolute right operand replaces the left one.\<close>

definition path_join :: "path \<Rightarrow> string \<Rightarrow> path" where
  "path_join p s =
     (let q = parse_path s
      in if path_root q \<noteq> '''' then q else \<lparr>path_root = path_root p, path_parts = path_parts p @ path_parts q\<rparr>)"

text \<open>\<open>p.parent\<close>, \<open>p.parents\<close> (nearest first), \<open>p.name\<close> and \<open>p.stem\<close>.\<close>

definition parent :: "path \<Rightarrow> path" where
  "parent p = \<lparr>path_root = path_root p, path_parts = butlast (path_parts p)\<rparr>"

definition parents :: "path \<Rightarrow> path list" where
  "parents p = map (\<lambda>k. \<lparr>path_root = path_root p, path_parts = take k (path_parts p)\<rparr>) (rev [0..<length (path_parts p)])"

definition path_name :: "path \<Rightarrow> string" where
  "path_name p = (if path_parts p = [] then '''' else last (path_parts p))"

definition path_stem :: "path \<Rightarrow> string" where
  "path_stem p = stem (path_name p)"

text \<open>
  Paths as \<open>parse_path\<close> produces them: the three roots, and components without a slash
  that are neither empty nor a single period.
\<close>

definition wf_path :: "path \<Rightarrow> bool" where
  "wf_path p \<longleftrightarrow>
     path_root p \<in> set ['''', ''/'', ''//''] \<and>
     list_all (\<lambda>c. c \<noteq> '''' \<and> c \<noteq> ''.'' \<and> CHR ''/'' \<notin> set c) (path_parts p)"

text \<open>A single path component: not empty, not a period, without a slash.\<close>

definition simple_name :: "string \<Rightarrow> bool" where
  "simple_name n \<longleftrightarrow> n \<noteq> '''' \<and> n \<noteq> ''.'' \<and> CHR ''/'' \<notin> set n"

subsection \<open>The clock\<close>

text \<open>A \<open>datetime\<close> as \<open>datetime.now()\<close> returns it.\<close>

record datetime =
  dt_year :: nat
  dt_month :: nat
  dt_day :: nat
  dt_hour :: nat
  dt_minute :: nat
  dt_second :: nat
  dt_microsecond :: nat

definition valid_datetime :: "datetime \<Rightarrow> bool" where
  "valid_datetime d \<longleftrightarrow>
     1 \<le> dt_year d \<and> dt_year d \<le> 9999 \<and> 1 \<le> dt_month d \<and> dt_month d \<le> 12 \<and>
     1 \<le> dt_day d \<and> dt_day d \<le> 31 \<and> dt_hour d < 24 \<and> dt_minute d < 60 \<and>
     dt_second d < 60 \<and> dt_microsecond d < 1000000"

text \<open>
  \<open>strftime('%Y%m%d_%H%M%S')\<close>: every field zero-padded to its width (four digits for the
  year, as the Python documentation gives it), at a resolution of one second.
\<close>

definition strftime_seconds :: "datetime \<Rightarrow> string" where
  "strftime_seconds d =
     format_0d 4 (int (dt_year d)) @ format_0d 2 (int (dt_month d)) @ format_0d 2 (int (dt_day d))
       @ ''_'' @ format_0d 2 (int (dt_hour d)) @ format_0d 2 (int (dt_minute d))
       @ format_0d 2 (int (dt_second d))"

text \<open>\<open>strftime('%Y%m%d_%H%M%S_%f')\<close>: the same with the six digits of the microsecond.\<close>

definition strftime_micro :: "datetime \<Rightarrow> string" where
  "strftime_micro d = strftime_seconds d @ ''_'' @ format_0d 6 (int (dt_microsecond d))"

subsection \<open>Files\<close>

text \<open>
  The file system maps the string that names a file to its content; \<open>None\<close> is a path at
  which nothing exists. A file is identified with the one string used for it: two
  spellings of one location are two keys.
\<close>

datatype content = Media | Document string

type_synonym files = "string \<rightharpoonup> content"

text \<open>Two clock readings within the same second.\<close>

definition same_second :: "datetime \<Rightarrow> datetime \<Rightarrow> bool" where
  "same_second d e \<longleftrightarrow>
     dt_year d = dt_year e \<and> dt_month d = dt_month e \<and> dt_day d = dt_day e \<and>
     dt_hour d = dt_hour e \<and> dt_minute d = dt_minute e \<and> dt_second d = dt_second e"

section \<open>The service object and its environment (services/whisper\_service.py)\<close>

subsection \<open>Configuration constants (config.py)\<close>

definition WHISPER_DEFAULT_MODEL :: string where
  "WHISPER_DEFAULT_MODEL = ''base''"

definition WHISPER_AVAILABLE_MODELS :: "string list" where
  "WHISPER_AVAILABLE_MODELS = [''base'', ''large-v3-turbo'']"

definition SUBTITLE_AVAILABLE_FORMATS :: "string list" where
  "SUBTITLE_AVAILABLE_FORMATS = [''srt'', ''vtt'']"

subsection \<open>State\<close>

text \<open>
  The two calls of the \<open>WhisperModel\<close> constructor in \<open>_load_model\<close>: on the local model
  directory, or on the model name with a download root.
\<close>

datatype model_source = LocalModel string | DownloadModel string

text \<open>
  The persisted runtime selection \<open>whisper_config.json\<close>: absent, present but unreadable
  (it cannot be opened, is not JSON, or is not a JSON object), or a JSON object, of which
  \<open>_load_config\<close> reads two keys with \<open>dict.get\<close>.
\<close>

record whisper_config =
  cfg_current_model :: "string option"
  cfg_subtitle_output_format :: "string option"
  cfg_updated_at :: "string option"

datatype config_file = Missing | Unreadable | Json whisper_config

text \<open>
  The state the operations act on: the attributes of the \<open>WhisperService\<close> object
  (\<open>current_model\<close>, a handle of the abstract type \<open>'h\<close> or \<open>None\<close>; \<open>current_model_name\<close>;
  \<open>config.SUBTITLE_OUTPUT_FORMAT\<close>), and the disk (the selection record and the files).
  \<open>load_log\<close> is not a field of the program: it is the probe on the \<open>WhisperModel\<close>
  constructor, one entry per call of it, with whether the call returned a model.
\<close>

record 'h state =
  current_model :: "'h option"
  current_model_name :: string
  subtitle_output_format :: string
  model_config_file :: config_file
  fs :: files
  load_log :: "(model_source \<times> bool) list"

subsection \<open>Environment\<close>

text \<open>How writing a file with \<open>open(path, 'w')\<close> and then filling it can end.\<close>

datatype write_outcome = WriteOk | OpenFails | WriteFails

text \<open>
  How running FFmpeg can end: it raises or it returns, and in both cases it has or has
  not written its output file.
\<close>

datatype ffmpeg_outcome = FfmpegRaises exn bool | FfmpegReturns bool

record transcription_info =
  info_language :: string
  info_duration :: rat

text \<open>
  Everything outside the program that a call depends on, as the answers the call gets.
  \<^item> \<open>backend_available\<close>: \<open>WhisperModel is not None\<close> (faster-whisper is installed);
    \<open>ffmpeg_available\<close>: \<open>FFmpeg is not None\<close>.
  \<^item> \<open>local_model_dir name\<close>: \<open>local_model_path.exists() and local_model_path.is_dir()\<close>;
    \<open>mkdir_model_dir\<close>: the exception of \<open>WHISPER_MODEL_DIR.mkdir\<close>, if any;
    \<open>whisper_model src\<close>: the constructor, returning a handle or raising.
  \<^item> \<open>write_config\<close>, \<open>now_iso\<close>: writing the selection record, and its time stamp.
  \<^item> \<open>project_root\<close>: \<open>Path(__file__).parent.parent.parent\<close>; \<open>mkdir_temp\<close>: the exception of
    \<open>temp_dir.mkdir\<close>, if any; \<open>now_preprocess\<close>: the clock when the scratch name is made;
    \<open>ffmpeg_run input output\<close>: building and running the FFmpeg command.
  \<^item> \<open>transcribe handle path language\<close>: \<open>current_model.transcribe\<close> together with the
    iteration over the segments it returns.
  \<^item> \<open>os_remove path\<close>: the exception of \<open>os.remove\<close>, if any.
  \<^item> \<open>subtitles_folder\<close>: \<open>config.SUBTITLES_FOLDER\<close>; \<open>now_save\<close>: the clock when the subtitle
    file is named; \<open>write_subtitle\<close>: writing the subtitle file.
\<close>

record 'h world =
  backend_available :: bool
  ffmpeg_available :: bool
  local_model_dir :: "string \<Rightarrow> exn + bool"
  mkdir_model_dir :: "exn option"
  whisper_model :: "model_source \<Rightarrow> exn + 'h"
  write_config :: write_outcome
  now_iso :: string
  project_root :: path
  mkdir_temp :: "exn option"
  now_preprocess :: datetime
  ffmpeg_run :: "string \<Rightarrow> string \<Rightarrow> ffmpeg_outcome"
  transcribe :: "'h \<Rightarrow> string \<Rightarrow> string option \<Rightarrow> exn + (segment list \<times> transcription_info)"
  os_remove :: "string \<Rightarrow> exn option"
  subtitles_folder :: path
  now_save :: datetime
  write_subtitle :: write_outcome

section \<open>Model runtime\<close>

text \<open>
  \<open>_save_config\<close>: the record is rewritten from the current attributes. An exception is
  logged and swallowed; one raised after \<open>open(..., 'w')\<close> has truncated the file leaves it
  unreadable.
\<close>

definition save_config :: "'h world \<Rightarrow> 'h state \<Rightarrow> 'h state" where
  "save_config w s =
     (case write_config w of
        WriteOk \<Rightarrow>
          s\<lparr>model_config_file :=
               Json \<lparr>cfg_current_model = Some (current_model_name s),
                     cfg_subtitle_output_format = Some (subtitle_output_format s),
                     cfg_updated_at = Some (now_iso w)\<rparr>\<rparr>
      | OpenFails \<Rightarrow> s
      | WriteFails \<Rightarrow> s\<lparr>model_config_file := Unreadable\<rparr>)"

text \<open>
  \<open>_load_config\<close>: a missing record is created from the defaults; an unreadable one leaves
  the default model name; otherwise the model name is taken from the record (the default
  when the key is absent) and the format is taken when it is one of the allowed ones.
\<close>

definition load_config :: "'h world \<Rightarrow> 'h state \<Rightarrow> 'h state" where
  "load_config w s =
     (case model_config_file s of
        Missing \<Rightarrow> save_config w s
      | Unreadable \<Rightarrow> s\<lparr>current_model_name := WHISPER_DEFAULT_MODEL\<rparr>
      | Json config \<Rightarrow>
          (let s1 = s\<lparr>current_model_name :=
                        (case cfg_current_model config of
                           Some m \<Rightarrow> m
                         | None \<Rightarrow> WHISPER_DEFAULT_MODEL)\<rparr>;
               subtitle_format =
                 (case cfg_subtitle_output_format config of
                    Some f \<Rightarrow> f
                  | None \<Rightarrow> subtitle_output_format s1)
           in if subtitle_format \<in> set SUBTITLE_AVAILABLE_FORMATS
              then s1\<lparr>subtitle_output_format := subtitle_format\<rparr>
              else s1))"

text \<open>
  \<open>__init__\<close> at process start: no model is loaded, the model name is the default, the
  format is the configured one (\<open>env_format\<close>), and the selection record on the disk is
  read.
\<close>

definition init :: "'h world \<Rightarrow> string \<Rightarrow> config_file \<Rightarrow> files \<Rightarrow> 'h state" where
  "init w env_format file_on_disk files_on_disk =
     load_config w
       \<lparr>current_model = None,
        current_model_name = WHISPER_DEFAULT_MODEL,
        subtitle_output_format = env_format,
        model_config_file = file_on_disk,
        fs = files_on_disk,
        load_log = []\<rparr>"

text \<open>
  \<open>_load_model\<close>. The result is the returned \<open>bool\<close> and the state afterwards. Every
  exception raised in the body is caught by \<open>except Exception\<close>, which returns \<open>False\<close>;
  what the body had assigned before stays assigned.
\<close>

definition load_model :: "'h world \<Rightarrow> string \<Rightarrow> 'h state \<Rightarrow> bool \<times> 'h state" where
  "load_model w model_name s =
     (if \<not> backend_available w then (True, s)
      else if current_model s \<noteq> None \<and> current_model_name s = model_name then (True, s)
      else
        (case local_model_dir w model_name of
           Inl e \<Rightarrow> (False, s)
         | Inr is_local \<Rightarrow>
             if is_local
             then
               (case whisper_model w (LocalModel model_name) of
                  Inl e \<Rightarrow> (False, s\<lparr>load_log := load_log s @ [(LocalModel model_name, False)]\<rparr>)
                | Inr handle \<Rightarrow>
                    (True,
                     save_config w
                       (s\<lparr>current_model := Some handle,
                          current_model_name := model_name,
                          load_log := load_log s @ [(LocalModel model_name, True)]\<rparr>)))
             else
               (case mkdir_model_dir w of
                  Some e \<Rightarrow> (False, s)
                | None \<Rightarrow>
                    (case whisper_model w (DownloadModel model_name) of
                       Inl e \<Rightarrow>
                         (False, s\<lparr>load_log := load_log s @ [(DownloadModel model_name, False)]\<rparr>)
                     | Inr handle \<Rightarrow>
                         (True,
                          save_config w
                            (s\<lparr>current_model := Some handle,
                               current_model_name := model_name,
                               load_log := load_log s @ [(DownloadModel model_name, True)]\<rparr>))))))"

text \<open>\<open>_get_model_display_name\<close>, \<open>_get_model_size\<close> and \<open>get_current_model\<close>.\<close>

definition get_model_display_name :: "string \<Rightarrow> string" where
  "get_model_display_name model_name =
     (if model_name = ''base'' then ''Base (~74 MB)''
      else if model_name = ''large-v3-turbo'' then ''Large v3 Turbo (~1550 MB)''
      else model_name)"

definition get_model_size :: "string \<Rightarrow> string" where
  "get_model_size model_name =
     (if model_name = ''base'' then ''74 MB''
      else if model_name = ''large-v3-turbo'' then ''1550 MB''
      else ''Unknown'')"

record model_info =
  info_name :: string
  info_display_name :: string
  info_size :: string
  info_is_loaded :: bool

definition get_current_model :: "'h state \<Rightarrow> model_info" where
  "get_current_model s =
     \<lparr>info_name = current_model_name s,
      info_display_name = get_model_display_name (current_model_name s),
      info_size = get_model_size (current_model_name s),
      info_is_loaded = (current_model s \<noteq> None)\<rparr>"

text \<open>
  The dictionary \<open>select_model\<close> returns. The message texts of the program are Chinese
  sentences with the model name inserted; a message is modelled by its kind and the name.
\<close>

datatype select_message = UnsupportedModel string | ModelSwitched string | ModelLoadFailed string

record select_result =
  sel_success :: bool
  sel_message :: select_message
  sel_current_model :: "model_info option"

text \<open>
  \<open>select_model\<close>. Nothing in its body raises (\<open>_load_model\<close> catches its own exceptions), so
  its \<open>except\<close> branch has no counterpart here.
\<close>

definition select_model :: "'h world \<Rightarrow> string \<Rightarrow> 'h state \<Rightarrow> select_result \<times> 'h state" where
  "select_model w model_name s =
     (if model_name \<notin> set WHISPER_AVAILABLE_MODELS
      then (\<lparr>sel_success = False, sel_message = UnsupportedModel model_name,
             sel_current_model = None\<rparr>, s)
      else
        (case load_model w model_name s of
           (True, s') \<Rightarrow>
             (\<lparr>sel_success = True, sel_message = ModelSwitched model_name,
               sel_current_model = Some (get_current_model s')\<rparr>, s')
         | (False, s') \<Rightarrow>
             (\<lparr>sel_success = False, sel_message = ModelLoadFailed model_name,
               sel_current_model = None\<rparr>, s')))"

text \<open>The number of model constructions in a probe log that returned a model.\<close>

definition completed_loads :: "(model_source \<times> bool) list \<Rightarrow> nat" where
  "completed_loads entries = length (filter snd entries)"

section \<open>Transcription pipeline\<close>

subsection \<open>Exceptions and \<open>try\<close>\<close>

text \<open>
  \<open>try: body except Exception as e: handler\<close>: the handler runs on the exception the body
  raised. What the body did to the state before raising is returned beside its outcome by
  the functions below, so it is not undone.
\<close>

definition try_except :: "exn + 'a \<Rightarrow> (exn \<Rightarrow> exn + 'a) \<Rightarrow> exn + 'a" where
  "try_except body handler = (case body of Inl e \<Rightarrow> handler e | Inr x \<Rightarrow> Inr x)"

subsection \<open>Audio normalizer\<close>

text \<open>\<open>project_root / "Temp"\<close>, as \<open>_preprocess_audio\<close> and \<open>_cleanup_temp_file\<close> compute it.\<close>

definition temp_dir :: "'h world \<Rightarrow> path" where
  "temp_dir w = path_join (project_root w) ''Temp''"

text \<open>The scratch file of a call: \<open>temp_dir / f"preprocessed_audio_{timestamp}.mp3"\<close>.\<close>

definition temp_output :: "'h world \<Rightarrow> path" where
  "temp_output w =
     (let timestamp = strftime_micro (now_preprocess w)
      in path_join (temp_dir w) (''preprocessed_audio_'' @ timestamp @ ''.mp3''))"

text \<open>
  The \<open>try\<close> body of \<open>_preprocess_audio\<close>: its outcome (the returned path or the exception
  raised) and the files afterwards. FFmpeg touches its output file only.
\<close>

definition preprocess_body :: "'h world \<Rightarrow> string \<Rightarrow> files \<Rightarrow> (exn + string) \<times> files" where
  "preprocess_body w input_path files =
     (case mkdir_temp w of
        Some e \<Rightarrow> (Inl e, files)
      | None \<Rightarrow>
          (let out = path_to_str (temp_output w)
           in case ffmpeg_run w input_path out of
                FfmpegRaises e written \<Rightarrow> (Inl e, if written then files(out \<mapsto> Media) else files)
              | FfmpegReturns written \<Rightarrow>
                  (let files' = (if written then files(out \<mapsto> Media) else files)
                   in if files' out \<noteq> None then (Inr out, files') else (Inr input_path, files'))))"

text \<open>
  \<open>_preprocess_audio\<close>: the input path when FFmpeg is not installed; otherwise the body,
  whose exceptions are caught and answered with the input path.
\<close>

definition preprocess_audio :: "'h world \<Rightarrow> string \<Rightarrow> files \<Rightarrow> (exn + string) \<times> files" where
  "preprocess_audio w input_path files =
     (if \<not> ffmpeg_available w then (Inr input_path, files)
      else (case preprocess_body w input_path files of
              (outcome, files') \<Rightarrow> (try_except outcome (\<lambda>e. Inr input_path), files')))"

subsection \<open>Cleanup of scratch files\<close>

text \<open>
  The \<open>try\<close> body of \<open>_cleanup_temp_file\<close>. \<open>os.path.exists\<close> is the file being present;
  the test for the Temp directory is the lexical one of \<open>pathlib\<close>.
\<close>

definition cleanup_body :: "'h world \<Rightarrow> string \<Rightarrow> files \<Rightarrow> (exn + unit) \<times> files" where
  "cleanup_body w file_path files =
     (if file_path = '''' \<or> files file_path = None then (Inr (), files)
      else
        (let file_path_obj = parse_path file_path
         in if temp_dir w \<in> set (parents file_path_obj) \<or> parent file_path_obj = temp_dir w
            then (case os_remove w file_path of
                    Some e \<Rightarrow> (Inl e, files)
                  | None \<Rightarrow> (Inr (), files(file_path := None)))
            else (Inr (), files)))"

text \<open>\<open>_cleanup_temp_file\<close>: an exception of the body is logged as a warning and swallowed.\<close>

definition cleanup_temp_file :: "'h world \<Rightarrow> string \<Rightarrow> files \<Rightarrow> (exn + unit) \<times> files" where
  "cleanup_temp_file w file_path files =
     (case cleanup_body w file_path files of
        (outcome, files') \<Rightarrow> (try_except outcome (\<lambda>e. Inr ()), files'))"

text \<open>The condition under which \<open>_cleanup_temp_file\<close> removes: the path lies in the Temp directory.\<close>

definition inside_temp :: "'h world \<Rightarrow> string \<Rightarrow> bool" where
  "inside_temp w file_path \<longleftrightarrow>
     temp_dir w \<in> set (parents (parse_path file_path)) \<or> parent (parse_path file_path) = temp_dir w"

subsection \<open>Saving the subtitle document\<close>

text \<open>\<open>str.lower\<close> and \<open>str.strip\<close>, on the ASCII letters and the ASCII white space.\<close>

definition lower_char :: "char \<Rightarrow> char" where
  "lower_char c =
     (let n = (of_char c :: nat) in if 65 \<le> n \<and> n \<le> 90 then char_of (n + 32) else c)"

definition lower :: "string \<Rightarrow> string" where
  "lower s = map lower_char s"

definition is_space :: "char \<Rightarrow> bool" where
  "is_space c \<longleftrightarrow>
     c \<in> set [CHR '' '', CHR 0x09, CHR 0x0A, CHR 0x0B, CHR 0x0C, CHR 0x0D,
               CHR 0x1C, CHR 0x1D, CHR 0x1E, CHR 0x1F]"

definition strip :: "string \<Rightarrow> string" where
  "strip s = rev (dropWhile is_space (rev (dropWhile is_space s)))"

text \<open>The name of the subtitle file: \<open>f"{original_name}_{timestamp}.{output_format}"\<close>.\<close>

definition output_format_of :: "'h state \<Rightarrow> string" where
  "output_format_of s =
     (let output_format = lower (subtitle_output_format s)
      in if output_format \<notin> set SUBTITLE_AVAILABLE_FORMATS then ''vtt'' else output_format)"

definition subtitle_filename :: "'h world \<Rightarrow> string \<Rightarrow> 'h state \<Rightarrow> string" where
  "subtitle_filename w original_file_path s =
     (let original_name = path_stem (parse_path original_file_path);
          timestamp = strftime_seconds (now_save w)
      in original_name @ ''_'' @ timestamp @ ''.'' @ output_format_of s)"

text \<open>
  \<open>_save_subtitle_file\<close>: the path of the written file, or the empty string when an
  exception was caught (then the file was not created, or was created and left empty).
\<close>

definition save_subtitle_file ::
  "'h world \<Rightarrow> string \<Rightarrow> segment list \<Rightarrow> 'h state \<Rightarrow> string \<times> files" where
  "save_subtitle_file w original_file_path segments s =
     (let output_format = output_format_of s;
          subtitle_path = path_join (subtitles_folder w) (subtitle_filename w original_file_path s);
          subtitle_content =
            (if output_format = ''vtt'' then generate_vtt_content segments
             else generate_srt_content segments);
          target = path_to_str subtitle_path
      in case write_subtitle w of
           WriteOk \<Rightarrow> (target, (fs s)(target \<mapsto> Document subtitle_content))
         | OpenFails \<Rightarrow> ('''', fs s)
         | WriteFails \<Rightarrow> ('''', (fs s)(target \<mapsto> Document '''')))"

subsection \<open>\<open>extract_subtitle\<close>\<close>

text \<open>The dictionaries \<open>extract_subtitle\<close> returns.\<close>

datatype failure =
  FileMissing | ModelLoadFailure string | DefaultModelLoadFailure | ExtractionFailure exn

record transcription_result =
  res_mock :: bool
  res_subtitle_text :: string
  res_segments :: "segment list"
  res_subtitle_file :: string
  res_language :: string
  res_duration :: rat
  res_model_used :: string

datatype extract_result = Failed failure | Extracted transcription_result

text \<open>The three placeholder texts of \<open>_mock_extract_subtitle\<close>, as their UTF-8 bytes.\<close>

definition mock_text_1 :: string where
  "mock_text_1 =
     [CHR 0xE8, CHR 0xBF, CHR 0x99, CHR 0xE6, CHR 0x98, CHR 0xAF, CHR 0xE4, CHR 0xB8,
      CHR 0x80, CHR 0xE4, CHR 0xB8, CHR 0xAA, CHR 0xE6, CHR 0xB5, CHR 0x8B, CHR 0xE8,
      CHR 0xAF, CHR 0x95, CHR 0xE5, CHR 0xAD, CHR 0x97, CHR 0xE5, CHR 0xB9, CHR 0x95,
      CHR 0xE7, CHR 0x89, CHR 0x87, CHR 0xE6, CHR 0xAE, CHR 0xB5, CHR 0xE3, CHR 0x80,
      CHR 0x82]"

definition mock_text_2 :: string where
  "mock_text_2 =
     [CHR 0xE8, CHR 0xBF, CHR 0x99, CHR 0xE9, CHR 0x87, CHR 0x8C, CHR 0xE6, CHR 0x98,
      CHR 0xAF, CHR 0xE7, CHR 0xAC, CHR 0xAC, CHR 0xE4, CHR 0xBA, CHR 0x8C, CHR 0xE4,
      CHR 0xB8, CHR 0xAA, CHR 0xE5, CHR 0xAD, CHR 0x97, CHR 0xE5, CHR 0xB9, CHR 0x95,
      CHR 0xE7, CHR 0x89, CHR 0x87, CHR 0xE6, CHR 0xAE, CHR 0xB5, CHR 0xE3, CHR 0x80,
      CHR 0x82]"

definition mock_text_3 :: string where
  "mock_text_3 =
     [CHR 0xE6, CHR 0x9C, CHR 0x80, CHR 0xE5, CHR 0x90, CHR 0x8E, CHR 0xE4, CHR 0xB8,
      CHR 0x80, CHR 0xE4, CHR 0xB8, CHR 0xAA, CHR 0xE6, CHR 0xB5, CHR 0x8B, CHR 0xE8,
      CHR 0xAF, CHR 0x95, CHR 0xE7, CHR 0x89, CHR 0x87, CHR 0xE6, CHR 0xAE, CHR 0xB5,
      CHR 0xE3, CHR 0x80, CHR 0x82]"

definition mock_segments :: "segment list" where
  "mock_segments =
     [\<lparr>seg_start = 0, seg_end = 3, seg_text = mock_text_1\<rparr>,
      \<lparr>seg_start = 3, seg_end = 6, seg_text = mock_text_2\<rparr>,
      \<lparr>seg_start = 6, seg_end = 9, seg_text = mock_text_3\<rparr>]"

text \<open>\<open>' '.join(texts)\<close>.\<close>

fun join_space :: "string list \<Rightarrow> string" where
  "join_space [] = []"
| "join_space [t] = t"
| "join_space (t # u # ts) = t @ '' '' @ join_space (u # ts)"

definition mock_extract_subtitle :: "'h world \<Rightarrow> string \<Rightarrow> 'h state \<Rightarrow> extract_result \<times> 'h state" where
  "mock_extract_subtitle w file_path s =
     (let full_text = join_space (map seg_text mock_segments);
          (subtitle_file, files') = save_subtitle_file w file_path mock_segments s
      in (Extracted
            \<lparr>res_mock = True, res_subtitle_text = full_text, res_segments = mock_segments,
             res_subtitle_file = subtitle_file, res_language = ''zh'', res_duration = 9,
             res_model_used = current_model_name s\<rparr>,
          s\<lparr>fs := files'\<rparr>))"

text \<open>
  The loop over the transcribed segments: the stripped segments, and the text
  accumulated with a blank after each segment.
\<close>

fun collect_segments :: "segment list \<Rightarrow> segment list \<Rightarrow> string \<Rightarrow> segment list \<times> string" where
  "collect_segments [] subtitle_segments full_text = (subtitle_segments, full_text)"
| "collect_segments (seg # segments) subtitle_segments full_text =
     collect_segments segments
       (subtitle_segments @ [\<lparr>seg_start = seg_start seg, seg_end = seg_end seg,
                              seg_text = strip (seg_text seg)\<rparr>])
       (full_text @ strip (seg_text seg) @ '' '')"

text \<open>
  The model selection at the start of \<open>extract_subtitle\<close>: \<open>None\<close> when it went through,
  the failure to return otherwise.
\<close>

definition choose_model ::
  "'h world \<Rightarrow> string option \<Rightarrow> 'h state \<Rightarrow> failure option \<times> 'h state" where
  "choose_model w model_name s =
     (if model_name \<noteq> None \<and> model_name \<noteq> Some '''' \<and> model_name \<noteq> Some (current_model_name s)
      then (case load_model w (the model_name) s of
              (True, s') \<Rightarrow> (None, s')
            | (False, s') \<Rightarrow> (Some (ModelLoadFailure (the model_name)), s'))
      else if current_model s = None
      then (case load_model w (current_model_name s) s of
              (True, s') \<Rightarrow> (None, s')
            | (False, s') \<Rightarrow> (Some DefaultModelLoadFailure, s'))
      else (None, s))"

text \<open>
  The \<open>try\<close> body of \<open>extract_subtitle\<close>: its outcome (the returned dictionary or the
  exception raised), the value of the variable \<open>preprocessed_file\<close> when the body is
  left, and the state.
\<close>

definition extract_body ::
  "'h world \<Rightarrow> string \<Rightarrow> string option \<Rightarrow> string \<Rightarrow> 'h state \<Rightarrow>
     (exn + extract_result) \<times> string option \<times> 'h state" where
  "extract_body w file_path model_name language s =
     (if fs s file_path = None then (Inr (Failed FileMissing), None, s)
      else
        (case choose_model w model_name s of
           (Some f, s1) \<Rightarrow> (Inr (Failed f), None, s1)
         | (None, s1) \<Rightarrow>
             if \<not> backend_available w
             then (case mock_extract_subtitle w file_path s1 of
                     (result, s2) \<Rightarrow> (Inr result, None, s2))
             else
               (case preprocess_audio w file_path (fs s1) of
                  (Inl e, files2) \<Rightarrow> (Inl e, None, s1\<lparr>fs := files2\<rparr>)
                | (Inr preprocessed_file, files2) \<Rightarrow>
                    (let s2 = s1\<lparr>fs := files2\<rparr>
                     in case current_model s2 of
                          None \<Rightarrow> (Inl AttributeError, Some preprocessed_file, s2)
                        | Some handle \<Rightarrow>
                            (case transcribe w handle preprocessed_file
                                    (if language = ''auto'' then None else Some language) of
                               Inl e \<Rightarrow> (Inl e, Some preprocessed_file, s2)
                             | Inr (segments, info) \<Rightarrow>
                                 (let (subtitle_segments, full_text) =
                                        collect_segments segments [] '''';
                                      (subtitle_file, files3) =
                                        save_subtitle_file w file_path subtitle_segments s2
                                  in (Inr (Extracted
                                        \<lparr>res_mock = False,
                                         res_subtitle_text = strip full_text,
                                         res_segments = subtitle_segments,
                                         res_subtitle_file = subtitle_file,
                                         res_language = info_language info,
                                         res_duration = info_duration info,
                                         res_model_used = current_model_name s2\<rparr>),
                                      Some preprocessed_file,
                                      s2\<lparr>fs := files3\<rparr>)))))))"

text \<open>
  \<open>extract_subtitle\<close>: the body, its exceptions answered with the failure dictionary, and
  then the \<open>finally\<close> clause, which cleans the scratch file up unless \<open>preprocessed_file\<close> is
  unset, empty or the input path. An exception of the \<open>finally\<close> clause would replace the
  result.
\<close>

definition extract_subtitle ::
  "'h world \<Rightarrow> string \<Rightarrow> string option \<Rightarrow> string \<Rightarrow> 'h state \<Rightarrow>
     (exn + extract_result) \<times> 'h state" where
  "extract_subtitle w file_path model_name language s =
     (case extract_body w file_path model_name language s of
        (outcome, preprocessed_file, s') \<Rightarrow>
          (let result = try_except outcome (\<lambda>e. Inr (Failed (ExtractionFailure e)))
           in if preprocessed_file \<noteq> None \<and> preprocessed_file \<noteq> Some ''''
                 \<and> preprocessed_file \<noteq> Some file_path
              then (case cleanup_temp_file w (the preprocessed_file) (fs s') of
                      (Inl e, files') \<Rightarrow> (Inl e, s'\<lparr>fs := files'\<rparr>)
                    | (Inr u, files') \<Rightarrow> (result, s'\<lparr>fs := files'\<rparr>))
              else (result, s')))"

text \<open>
  The ways the normalizer can go wrong on an input: FFmpeg is not installed, the Temp
  directory cannot be made, building or running the command raises, or the run returns
  and there is no output file.
\<close>

definition normalizer_fails :: "'h world \<Rightarrow> string \<Rightarrow> files \<Rightarrow> bool" where
  "normalizer_fails w input_path files \<longleftrightarrow>
     \<not> ffmpeg_available w \<or> mkdir_temp w \<noteq> None \<or>
     (\<exists>e written. ffmpeg_run w input_path (path_to_str (temp_output w)) = FfmpegRaises e written) \<or>
     (ffmpeg_run w input_path (path_to_str (temp_output w)) = FfmpegReturns False \<and>
      files (path_to_str (temp_output w)) = None)"

section \<open>Example environments\<close>

text \<open>
  A deployment in which everything works, with model handles drawn from \<open>nat\<close>: the
  handle of a model is the length of its name. It is used to evaluate the operations on
  concrete inputs.
\<close>

definition example_clock :: datetime where
  "example_clock =
     \<lparr>dt_year = 2024, dt_month = 5, dt_day = 17, dt_hour = 9, dt_minute = 30, dt_second = 15,
      dt_microsecond = 250000\<rparr>"

definition example_segments :: "segment list" where
  "example_segments =
     [\<lparr>seg_start = 0, seg_end = 3, seg_text = '' A ''\<rparr>,
      \<lparr>seg_start = 3, seg_end = 6, seg_text = ''B''\<rparr>,
      \<lparr>seg_start = 6, seg_end = 9, seg_text = ''C ''\<rparr>]"

definition example_world :: "nat world" where
  "example_world =
     \<lparr>backend_available = True,
      ffmpeg_available = True,
      local_model_dir = (\<lambda>name. Inr True),
      mkdir_model_dir = None,
      whisper_model =
        (\<lambda>src. Inr (case src of LocalModel name \<Rightarrow> length name
                                | DownloadModel name \<Rightarrow> length name)),
      write_config = WriteOk,
      now_iso = ''2024-05-17T09:30:15.250000'',
      project_root = \<lparr>path_root = ''/'', path_parts = [''srv'', ''app'']\<rparr>,
      mkdir_temp = None,
      now_preprocess = example_clock,
      ffmpeg_run = (\<lambda>input output. FfmpegReturns True),
      transcribe =
        (\<lambda>handle file language.
           Inr (example_segments, \<lparr>info_language = ''en'', info_duration = 9\<rparr>)),
      os_remove = (\<lambda>file. None),
      subtitles_folder = \<lparr>path_root = ''/'', path_parts = [''srv'', ''app'', ''Subtitles'']\<rparr>,
      now_save = example_clock\<lparr>dt_second := 20, dt_microsecond := 0\<rparr>,
      write_subtitle = WriteOk\<rparr>"

text \<open>The same deployment without faster-whisper (the degraded mode).\<close>

definition degraded_world :: "nat world" where
  "degraded_world = example_world\<lparr>backend_available := False\<rparr>"

text \<open>
  A service with the model \<open>base\<close> loaded (handle 4) and selected, its selection record on
  the disk, and one uploaded file.
\<close>

definition example_state :: "nat state" where
  "example_state =
     \<lparr>current_model = Some 4,
      current_model_name = ''base'',
      subtitle_output_format = ''vtt'',
      model_config_file =
        Json \<lparr>cfg_current_model = Some ''base'', cfg_subtitle_output_format = Some ''vtt'',
              cfg_updated_at = Some ''2024-05-17T08:00:00''\<rparr>,
      fs = [''/srv/app/Temp/talk_20240517_090000.mp4'' \<mapsto> Media],
      load_log = []\<rparr>"

text \<open>A deployment in which the model constructor always raises.\<close>

definition broken_world :: "nat world" where
  "broken_world = example_world\<lparr>whisper_model := (\<lambda>src. Inl RuntimeError)\<rparr>"

text \<open>Deployments without FFmpeg, and with an FFmpeg whose run fails.\<close>

definition no_ffmpeg_world :: "nat world" where
  "no_ffmpeg_world = example_world\<lparr>ffmpeg_available := False\<rparr>"

definition failing_ffmpeg_world :: "nat world" where
  "failing_ffmpeg_world =
     example_world\<lparr>ffmpeg_run := (\<lambda>input output. FfmpegRaises RuntimeError False)\<rparr>"


text \<open>A deployment in which the recognition raises.\<close>

definition crashing_world :: "nat world" where
  "crashing_world = example_world\<lparr>transcribe := (\<lambda>handle file language. Inl RuntimeError)\<rparr>"

text \<open>The same deployment nine tenths of a second later.\<close>

definition later_world :: "nat world" where
  "later_world =
     example_world\<lparr>now_save := example_clock\<lparr>dt_second := 20, dt_microsecond := 900000\<rparr>\<rparr>"

text \<open>The same deployment one second later.\<close>

definition next_second_world :: "nat world" where
  "next_second_world =
     example_world\<lparr>now_save := example_clock\<lparr>dt_second := 21, dt_microsecond := 0\<rparr>\<rparr>"

chapter \<open>Properties\<close>

lemma exact_scan_find:
  "exact_scan folder file_id es =
     map_option (\<lambda>e. path_str folder (entry_name e)) (List.find (exact_match file_id) es)"
  by (induction es) (simp_all add: exact_match_def Let_def)

lemma fuzzy_scan_find:
  "fuzzy_scan folder file_id es =
     map_option (\<lambda>e. path_str folder (entry_name e)) (List.find (prefix_match file_id) es)"
  by (induction es) (simp_all add: prefix_match_def Let_def)

lemma exact_is_prefix: "exact_match file_id e \<Longrightarrow> prefix_match file_id e"
  by (simp add: exact_match_def prefix_match_def startswith_def)

text \<open>
  Claim C6. For every identifier and every listing of the temp directory (that can be
  scanned), \<open>find_file_by_id\<close> returns the first regular file whose name without extension
  equals the identifier whenever one exists, even when other entries, earlier ones
  included, merely start with the identifier; it falls back to the first prefix match
  only when there is no exact match; and it returns \<open>None\<close> when there is neither.
\<close>

theorem find_file_by_id_exact_priority:
  "((\<exists>e \<in> set es. exact_match file_id e) \<longrightarrow>
      (\<exists>e \<in> set es. exact_match file_id e \<and>
         List.find (exact_match file_id) es = Some e \<and>
         find_file_by_id folder (Inr es) file_id = Some (path_str folder (entry_name e)))) \<and>
   (\<not> (\<exists>e \<in> set es. exact_match file_id e) \<and> (\<exists>e \<in> set es. prefix_match file_id e) \<longrightarrow>
      (\<exists>e \<in> set es. prefix_match file_id e \<and>
         List.find (prefix_match file_id) es = Some e \<and>
         find_file_by_id folder (Inr es) file_id = Some (path_str folder (entry_name e)))) \<and>
   (\<not> (\<exists>e \<in> set es. prefix_match file_id e) \<longrightarrow>
      find_file_by_id folder (Inr es) file_id = None)"
proof (intro conjI impI)
  assume "\<exists>e \<in> set es. exact_match file_id e"
  then obtain e where e: "List.find (exact_match file_id) es = Some e"
    by (cases "List.find (exact_match file_id) es") (auto simp: find_None_iff)
  then have "e \<in> set es" "exact_match file_id e"
    by (auto simp: find_Some_iff)
  with e show "\<exists>e \<in> set es. exact_match file_id e \<and>
         List.find (exact_match file_id) es = Some e \<and>
         find_file_by_id folder (Inr es) file_id = Some (path_str folder (entry_name e))"
    by (auto simp: find_file_by_id_def exact_scan_find)
next
  assume a: "\<not> (\<exists>e \<in> set es. exact_match file_id e) \<and> (\<exists>e \<in> set es. prefix_match file_id e)"
  then have none: "List.find (exact_match file_id) es = None"
    by (auto simp: find_None_iff)
  from a obtain e where e: "List.find (prefix_match file_id) es = Some e"
    by (cases "List.find (prefix_match file_id) es") (auto simp: find_None_iff)
  then have "e \<in> set es" "prefix_match file_id e"
    by (auto simp: find_Some_iff)
  with e none show "\<exists>e \<in> set es. prefix_match file_id e \<and>
         List.find (prefix_match file_id) es = Some e \<and>
         find_file_by_id folder (Inr es) file_id = Some (path_str folder (entry_name e))"
    by (auto simp: find_file_by_id_def exact_scan_find fuzzy_scan_find)
next
  assume a: "\<not> (\<exists>e \<in> set es. prefix_match file_id e)"
  then have "List.find (prefix_match file_id) es = None"
    by (auto simp: find_None_iff)
  moreover from a have "List.find (exact_match file_id) es = None"
    by (auto simp: find_None_iff dest: exact_is_prefix)
  ultimately show "find_file_by_id folder (Inr es) file_id = None"
    by (simp add: find_file_by_id_def exact_scan_find fuzzy_scan_find)
qed


theorem find_file_by_id_exact_priority_witness:
  "(\<exists>e \<in> set [\<lparr>entry_name = ''talk_20240101_120000_v2.mp4'', entry_is_file = True\<rparr>,
                  \<lparr>entry_name = ''talk_20240101_120000.mp4'', entry_is_file = True\<rparr>].
      exact_match ''talk_20240101_120000'' e) \<and>
   find_file_by_id ''/srv/Temp''
     (Inr [\<lparr>entry_name = ''talk_20240101_120000_v2.mp4'', entry_is_file = True\<rparr>,
           \<lparr>entry_name = ''talk_20240101_120000.mp4'', entry_is_file = True\<rparr>])
     ''talk_20240101_120000'' = Some ''/srv/Temp/talk_20240101_120000.mp4''"
  using find_file_by_id_exact_priority
    [of "[\<lparr>entry_name = ''talk_20240101_120000_v2.mp4'', entry_is_file = True\<rparr>,
          \<lparr>entry_name = ''talk_20240101_120000.mp4'', entry_is_file = True\<rparr>]"
        "''talk_20240101_120000''" "''/srv/Temp''"]
  by (simp add: exact_match_def stem_def rfind_dot_def path_str_def)

section \<open>Subtitle formatter\<close>

lemma decimal_small: "n < 10 \<Longrightarrow> decimal n = [digit_char n]"
  by (simp add: decimal.simps)

lemma decimal_large: "10 \<le> n \<Longrightarrow> decimal n = decimal (n div 10) @ [digit_char (n mod 10)]"
  by (subst decimal.simps) simp

lemma is_digit_digit_char: "d < 10 \<Longrightarrow> is_digit (digit_char d)"
proof -
  assume "d < 10"
  then have "d \<in> {0, 1, 2, 3, 4, 5, 6, 7, 8, 9}" by auto
  then show ?thesis
    by (auto simp: is_digit_def digit_char_def)
qed

lemma decimal_digits: "list_all is_digit (decimal n)"
proof (induction n rule: decimal.induct)
  case (1 n)
  show ?case
  proof (cases "n < 10")
    case True
    then show ?thesis by (simp add: decimal_small is_digit_digit_char)
  next
    case False
    with 1 show ?thesis by (simp add: decimal_large is_digit_digit_char)
  qed
qed

lemma decimal_nonempty: "decimal n \<noteq> []"
  by (subst decimal.simps) simp

lemma length_decimal: "0 < w \<Longrightarrow> n < 10 ^ w \<Longrightarrow> length (decimal n) \<le> w"
proof (induction w arbitrary: n)
  case 0
  then show ?case by simp
next
  case (Suc w)
  show ?case
  proof (cases "n < 10")
    case True
    then show ?thesis by (simp add: decimal_small)
  next
    case False
    then have w: "0 < w" using Suc.prems by (cases w) auto
    from Suc.prems have "n div 10 < 10 ^ w"
      by (simp add: less_mult_imp_div_less mult.commute)
    with Suc.IH [OF w] have "length (decimal (n div 10)) \<le> w" by simp
    with False show ?thesis by (simp add: decimal_large)
  qed
qed

lemma length_zfill: "length s \<le> w \<Longrightarrow> length (zfill w s) = w"
  by (simp add: zfill_def)

lemma is_digit_zero: "is_digit (CHR ''0'')"
  by (simp add: is_digit_def)

lemma zfill_digits: "list_all is_digit s \<Longrightarrow> list_all is_digit (zfill w s)"
  by (auto simp: zfill_def list_all_iff is_digit_zero)

lemma format_0d_fixed:
  assumes "0 \<le> n" "n < 10 ^ w" "0 < w"
  shows "length (format_0d w n) = w \<and> list_all is_digit (format_0d w n)"
proof -
  from assms have "nat n < 10 ^ w"
    by (metis nat_less_iff of_nat_numeral of_nat_power)
  with assms have "length (decimal (nat n)) \<le> w"
    by (simp add: length_decimal)
  with assms show ?thesis
    by (simp add: format_0d_def length_zfill zfill_digits decimal_digits)
qed

lemma py_mod_bounds: "0 < b \<Longrightarrow> 0 \<le> py_mod a b \<and> py_mod a b < b"
proof -
  assume b: "0 < b"
  have "of_int \<lfloor>a / b\<rfloor> \<le> a / b" by simp
  with b have l: "b * of_int \<lfloor>a / b\<rfloor> \<le> a"
    using pos_le_divide_eq [of b "of_int \<lfloor>a / b\<rfloor>" a] by (simp add: mult.commute)
  have "a / b < of_int \<lfloor>a / b\<rfloor> + 1" by linarith
  with b have "a < b * (of_int \<lfloor>a / b\<rfloor> + 1)"
    using pos_divide_less_eq [of b a "of_int \<lfloor>a / b\<rfloor> + 1"] by (simp add: mult.commute)
  then have "a - b * of_int \<lfloor>a / b\<rfloor> < b"
    by (simp add: algebra_simps)
  with l show ?thesis by (simp add: py_mod_def)
qed

text \<open>The four fields of a time code, for a non-negative time below 100 hours.\<close>

lemma hours_range:
  "0 \<le> s \<Longrightarrow> s < 360000 \<Longrightarrow>
     0 \<le> py_int (py_floordiv s 3600) \<and> py_int (py_floordiv s 3600) < 10 ^ 2"
proof -
  assume s: "0 \<le> s" "s < 360000"
  then have "0 \<le> s / 3600" "s / 3600 < 100" by simp_all
  then have "0 \<le> \<lfloor>s / 3600\<rfloor>" "\<lfloor>s / 3600\<rfloor> < 100"
    by (simp_all add: floor_less_iff)
  then show ?thesis by (simp add: py_int_def py_floordiv_def)
qed

lemma minutes_range:
  "0 \<le> py_int (py_floordiv (py_mod s 3600) 60) \<and> py_int (py_floordiv (py_mod s 3600) 60) < 10 ^ 2"
proof -
  have "0 \<le> py_mod s 3600" "py_mod s 3600 < 3600"
    using py_mod_bounds [of 3600 s] by simp_all
  then have "0 \<le> py_mod s 3600 / 60" "py_mod s 3600 / 60 < 60" by simp_all
  then have "0 \<le> \<lfloor>py_mod s 3600 / 60\<rfloor>" "\<lfloor>py_mod s 3600 / 60\<rfloor> < 60"
    by (simp_all add: floor_less_iff)
  then show ?thesis by (simp add: py_int_def py_floordiv_def)
qed

lemma secs_range: "0 \<le> py_int (py_mod s 60) \<and> py_int (py_mod s 60) < 10 ^ 2"
proof -
  have "0 \<le> py_mod s 60" "py_mod s 60 < 60"
    using py_mod_bounds [of 60 s] by simp_all
  then have "0 \<le> \<lfloor>py_mod s 60\<rfloor>" "\<lfloor>py_mod s 60\<rfloor> < 60"
    by (simp_all add: floor_less_iff)
  with \<open>0 \<le> py_mod s 60\<close> show ?thesis by (simp add: py_int_def)
qed

lemma millisecs_range: "0 \<le> py_int (py_mod s 1 * 1000) \<and> py_int (py_mod s 1 * 1000) < 10 ^ 3"
proof -
  have "0 \<le> py_mod s 1" "py_mod s 1 < 1"
    using py_mod_bounds [of 1 s] by simp_all
  then have b: "0 \<le> py_mod s 1 * 1000" "py_mod s 1 * 1000 < 1000" by simp_all
  then have "0 \<le> \<lfloor>py_mod s 1 * 1000\<rfloor>" "\<lfloor>py_mod s 1 * 1000\<rfloor> < 1000"
    by (simp_all add: floor_less_iff)
  with b show ?thesis by (simp add: py_int_def)
qed

lemma timecode_shapeI:
  assumes "length a = 2" "length b = 2" "length c = 2" "length d = 3"
    and "list_all is_digit a" "list_all is_digit b" "list_all is_digit c" "list_all is_digit d"
  shows "timecode_shape sep (a @ '':'' @ b @ '':'' @ c @ [sep] @ d)"
  using assms by (simp add: timecode_shape_def nth_append)

lemma vtt_time_shape:
  assumes "0 \<le> s" "s < 360000"
  shows "timecode_shape (CHR ''.'') (seconds_to_vtt_time s)"
proof -
  note h = format_0d_fixed [of "py_int (py_floordiv s 3600)" 2]
  note m = format_0d_fixed [of "py_int (py_floordiv (py_mod s 3600) 60)" 2]
  note c = format_0d_fixed [of "py_int (py_mod s 60)" 2]
  note d = format_0d_fixed [of "py_int (py_mod s 1 * 1000)" 3]
  show ?thesis
    unfolding seconds_to_vtt_time_def Let_def
    using timecode_shapeI [of "format_0d 2 (py_int (py_floordiv s 3600))"
        "format_0d 2 (py_int (py_floordiv (py_mod s 3600) 60))"
        "format_0d 2 (py_int (py_mod s 60))" "format_0d 3 (py_int (py_mod s 1 * 1000))" "CHR ''.''"]
      h m c d hours_range [OF assms] minutes_range [of s] secs_range [of s] millisecs_range [of s]
    by simp
qed

lemma srt_time_shape:
  assumes "0 \<le> s" "s < 360000"
  shows "timecode_shape (CHR '','') (seconds_to_srt_time s)"
proof -
  note h = format_0d_fixed [of "py_int (py_floordiv s 3600)" 2]
  note m = format_0d_fixed [of "py_int (py_floordiv (py_mod s 3600) 60)" 2]
  note c = format_0d_fixed [of "py_int (py_mod s 60)" 2]
  note d = format_0d_fixed [of "py_int (py_mod s 1 * 1000)" 3]
  show ?thesis
    unfolding seconds_to_srt_time_def Let_def
    using timecode_shapeI [of "format_0d 2 (py_int (py_floordiv s 3600))"
        "format_0d 2 (py_int (py_floordiv (py_mod s 3600) 60))"
        "format_0d 2 (py_int (py_mod s 60))" "format_0d 3 (py_int (py_mod s 1 * 1000))" "CHR '',''"]
      h m c d hours_range [OF assms] minutes_range [of s] secs_range [of s] millisecs_range [of s]
    by simp
qed

lemma vtt_loop_blocks: "vtt_loop segments acc = acc @ concat (map vtt_block segments)"
  by (induction segments arbitrary: acc) (simp_all add: vtt_block_def Let_def)

lemma srt_loop_blocks:
  "srt_loop (int n) segments acc = acc @ concat (srt_blocks n segments)"
proof (induction segments arbitrary: n acc)
  case Nil
  then show ?case by simp
next
  case (Cons seg segments)
  have step: "srt_loop (int n + 1) segments c = c @ concat (srt_blocks (Suc n) segments)" for c
    using Cons.IH [of "Suc n" c] by (simp add: add.commute)
  show ?case
    by (simp add: srt_block_def Let_def step)
qed

lemma length_srt_blocks: "length (srt_blocks first segments) = length segments"
  by (induction segments arbitrary: first) simp_all

lemma nth_srt_blocks:
  "k < length segments \<Longrightarrow> srt_blocks first segments ! k = srt_block (first + k) (segments ! k)"
proof (induction segments arbitrary: first k)
  case Nil
  then show ?case by simp
next
  case (Cons seg segments)
  then show ?case by (cases k) simp_all
qed

text \<open>
  Claim C5. For every segment sequence, the format A (VTT) document is the header line
  \<open>WEBVTT\<close>, a blank line, and then exactly one block per segment, in order: the range line
  made of the two period-separated time codes, the text line and a blank line, with no
  index line. The format B (SRT) document is exactly one block per segment, in order: the
  block at position \<open>k\<close> (counted from 0) starts with the line holding the decimal number
  \<open>k + 1\<close>, followed by the range line of the two comma-separated time codes, the text line
  and a blank line. For times from 0 up to 100 hours a time code has the fixed shape
  \<open>DD:DD:DD.DDD\<close> (format A) or \<open>DD:DD:DD,DDD\<close> (format B) of decimal digits \<open>D\<close>.
\<close>

theorem subtitle_rendering_structure:
  "generate_vtt_content segments = ''WEBVTT'' @ [NL] @ [NL] @ concat (map vtt_block segments) \<and>
   length (map vtt_block segments) = length segments \<and>
   (\<forall>k < length segments.
      map vtt_block segments ! k =
        seconds_to_vtt_time (seg_start (segments ! k)) @ '' --> ''
          @ seconds_to_vtt_time (seg_end (segments ! k)) @ [NL]
          @ seg_text (segments ! k) @ [NL] @ [NL]) \<and>
   generate_srt_content segments = concat (srt_blocks 1 segments) \<and>
   length (srt_blocks 1 segments) = length segments \<and>
   (\<forall>k < length segments.
      srt_blocks 1 segments ! k =
        str_int (int k + 1) @ [NL]
          @ seconds_to_srt_time (seg_start (segments ! k)) @ '' --> ''
          @ seconds_to_srt_time (seg_end (segments ! k)) @ [NL]
          @ seg_text (segments ! k) @ [NL] @ [NL]) \<and>
   (\<forall>s. 0 \<le> s \<and> s < 360000 \<longrightarrow>
      timecode_shape (CHR ''.'') (seconds_to_vtt_time s) \<and>
      timecode_shape (CHR '','') (seconds_to_srt_time s))"
proof (intro conjI allI impI)
  show "generate_vtt_content segments = ''WEBVTT'' @ [NL] @ [NL] @ concat (map vtt_block segments)"
    by (simp add: generate_vtt_content_def vtt_loop_blocks)
next
  show "length (map vtt_block segments) = length segments" by simp
next
  fix k assume "k < length segments"
  then show "map vtt_block segments ! k =
        seconds_to_vtt_time (seg_start (segments ! k)) @ '' --> ''
          @ seconds_to_vtt_time (seg_end (segments ! k)) @ [NL]
          @ seg_text (segments ! k) @ [NL] @ [NL]"
    by (simp add: vtt_block_def)
next
  have "srt_loop (int 1) segments [] = [] @ concat (srt_blocks 1 segments)"
    by (rule srt_loop_blocks)
  then show "generate_srt_content segments = concat (srt_blocks 1 segments)"
    by (simp add: generate_srt_content_def)
next
  show "length (srt_blocks 1 segments) = length segments"
    by (rule length_srt_blocks)
next
  fix k assume k: "k < length segments"
  have "srt_blocks 1 segments ! k = srt_block (1 + k) (segments ! k)"
    by (rule nth_srt_blocks [OF k])
  moreover have "int (1 + k) = int k + 1" by simp
  ultimately show "srt_blocks 1 segments ! k =
        str_int (int k + 1) @ [NL]
          @ seconds_to_srt_time (seg_start (segments ! k)) @ '' --> ''
          @ seconds_to_srt_time (seg_end (segments ! k)) @ [NL]
          @ seg_text (segments ! k) @ [NL] @ [NL]"
    by (simp only: srt_block_def)
next
  fix s :: rat assume "0 \<le> s \<and> s < 360000"
  then show "timecode_shape (CHR ''.'') (seconds_to_vtt_time s)"
    by (simp add: vtt_time_shape)
next
  fix s :: rat assume "0 \<le> s \<and> s < 360000"
  then show "timecode_shape (CHR '','') (seconds_to_srt_time s)"
    by (simp add: srt_time_shape)
qed

theorem subtitle_rendering_structure_witness:
  "(2::nat) < length [\<lparr>seg_start = 0, seg_end = 3, seg_text = ''A''\<rparr>,
                      \<lparr>seg_start = 3, seg_end = 6, seg_text = ''B''\<rparr>,
                      \<lparr>seg_start = 6, seg_end = 9, seg_text = ''C''\<rparr>] \<and>
   srt_blocks 1 [\<lparr>seg_start = 0, seg_end = 3, seg_text = ''A''\<rparr>,
                 \<lparr>seg_start = 3, seg_end = 6, seg_text = ''B''\<rparr>,
                 \<lparr>seg_start = 6, seg_end = 9, seg_text = ''C''\<rparr>] ! 2 =
     ''3'' @ [NL] @ ''00:00:06,000 --> 00:00:09,000'' @ [NL] @ ''C'' @ [NL] @ [NL] \<and>
   generate_srt_content [\<lparr>seg_start = 0, seg_end = 3, seg_text = ''A''\<rparr>,
                         \<lparr>seg_start = 3, seg_end = 6, seg_text = ''B''\<rparr>,
                         \<lparr>seg_start = 6, seg_end = 9, seg_text = ''C''\<rparr>] =
     ''1'' @ [NL] @ ''00:00:00,000 --> 00:00:03,000'' @ [NL] @ ''A'' @ [NL] @ [NL] @
     ''2'' @ [NL] @ ''00:00:03,000 --> 00:00:06,000'' @ [NL] @ ''B'' @ [NL] @ [NL] @
     ''3'' @ [NL] @ ''00:00:06,000 --> 00:00:09,000'' @ [NL] @ ''C'' @ [NL] @ [NL] \<and>
   generate_vtt_content [\<lparr>seg_start = 0, seg_end = 3, seg_text = ''A''\<rparr>,
                         \<lparr>seg_start = 3, seg_end = 6, seg_text = ''B''\<rparr>,
                         \<lparr>seg_start = 6, seg_end = 9, seg_text = ''C''\<rparr>] =
     ''WEBVTT'' @ [NL] @ [NL] @
     ''00:00:00.000 --> 00:00:03.000'' @ [NL] @ ''A'' @ [NL] @ [NL] @
     ''00:00:03.000 --> 00:00:06.000'' @ [NL] @ ''B'' @ [NL] @ [NL] @
     ''00:00:06.000 --> 00:00:09.000'' @ [NL] @ ''C'' @ [NL] @ [NL] \<and>
   (0::rat) \<le> 86399999 / 1000 \<and> (86399999 / 1000 :: rat) < 360000 \<and>
   timecode_shape (CHR ''.'') (seconds_to_vtt_time (86399999 / 1000)) \<and>
   seconds_to_vtt_time (86399999 / 1000) = ''23:59:59.999''"
proof -
  let ?segs = "[\<lparr>seg_start = 0, seg_end = 3, seg_text = ''A''\<rparr>,
                \<lparr>seg_start = 3, seg_end = 6, seg_text = ''B''\<rparr>,
                \<lparr>seg_start = 6, seg_end = 9, seg_text = ''C''\<rparr>]"
  note t = subtitle_rendering_structure [of ?segs]
  have t0: "seconds_to_srt_time 0 = ''00:00:00,000''" by code_simp
  have t3: "seconds_to_srt_time 3 = ''00:00:03,000''" by code_simp
  have t6: "seconds_to_srt_time 6 = ''00:00:06,000''" by code_simp
  have t9: "seconds_to_srt_time 9 = ''00:00:09,000''" by code_simp
  have v0: "seconds_to_vtt_time 0 = ''00:00:00.000''" by code_simp
  have v3: "seconds_to_vtt_time 3 = ''00:00:03.000''" by code_simp
  have v6: "seconds_to_vtt_time 6 = ''00:00:06.000''" by code_simp
  have v9: "seconds_to_vtt_time 9 = ''00:00:09.000''" by code_simp
  have s1: "str_int 1 = ''1''" by code_simp
  have s2: "str_int 2 = ''2''" by code_simp
  have s3: "str_int 3 = ''3''" by code_simp
  have last: "seconds_to_vtt_time (86399999 / 1000) = ''23:59:59.999''" by code_simp
  have shape: "timecode_shape (CHR ''.'') (seconds_to_vtt_time (86399999 / 1000))"
    using t by simp
  have b2: "srt_blocks 1 ?segs ! 2 =
      ''3'' @ [NL] @ ''00:00:06,000 --> 00:00:09,000'' @ [NL] @ ''C'' @ [NL] @ [NL]"
    using t by (simp add: srt_block_def t6 t9 s3)
  have srt: "generate_srt_content ?segs = concat (srt_blocks 1 ?segs)"
    using t by blast
  have vtt: "generate_vtt_content ?segs = ''WEBVTT'' @ [NL] @ [NL] @ concat (map vtt_block ?segs)"
    using t by blast
  have srt': "concat (srt_blocks 1 ?segs) =
     ''1'' @ [NL] @ ''00:00:00,000 --> 00:00:03,000'' @ [NL] @ ''A'' @ [NL] @ [NL] @
     ''2'' @ [NL] @ ''00:00:03,000 --> 00:00:06,000'' @ [NL] @ ''B'' @ [NL] @ [NL] @
     ''3'' @ [NL] @ ''00:00:06,000 --> 00:00:09,000'' @ [NL] @ ''C'' @ [NL] @ [NL]"
    by (simp add: srt_block_def t0 t3 t6 t9 s1 s2 s3)
  have vtt': "concat (map vtt_block ?segs) =
     ''00:00:00.000 --> 00:00:03.000'' @ [NL] @ ''A'' @ [NL] @ [NL] @
     ''00:00:03.000 --> 00:00:06.000'' @ [NL] @ ''B'' @ [NL] @ [NL] @
     ''00:00:06.000 --> 00:00:09.000'' @ [NL] @ ''C'' @ [NL] @ [NL]"
    by (simp add: vtt_block_def v0 v3 v6 v9)
  show ?thesis
    using b2 shape last srt srt' vtt vtt' by simp
qed

section \<open>Model runtime\<close>

lemma save_config_fields [simp]:
  "current_model (save_config w s) = current_model s"
  "current_model_name (save_config w s) = current_model_name s"
  "subtitle_output_format (save_config w s) = subtitle_output_format s"
  "fs (save_config w s) = fs s"
  "load_log (save_config w s) = load_log s"
  by (simp_all add: save_config_def split: write_outcome.splits)

text \<open>The four ways a call of \<open>_load_model\<close> can end.\<close>

lemma load_model_cases:
  assumes "load_model w m s = (ok, s')"
  shows "(ok \<and> s' = s \<and> (\<not> backend_available w \<or> (current_model s \<noteq> None \<and> current_model_name s = m))) \<or>
         (\<not> ok \<and> s' = s \<and> backend_available w) \<or>
         (\<not> ok \<and> backend_available w \<and> (\<exists>src. s' = s\<lparr>load_log := load_log s @ [(src, False)]\<rparr>)) \<or>
         (ok \<and> backend_available w \<and> \<not> (current_model s \<noteq> None \<and> current_model_name s = m) \<and>
            (\<exists>src h. s' = save_config w (s\<lparr>current_model := Some h, current_model_name := m,
                                            load_log := load_log s @ [(src, True)]\<rparr>)))"
  using assms
  by (auto simp: load_model_def split: if_splits sum.splits option.splits)

lemma load_model_noop:
  "current_model s \<noteq> None \<Longrightarrow> current_model_name s = m \<Longrightarrow> load_model w m s = (True, s)"
  by (simp add: load_model_def)

lemma load_model_degraded: "\<not> backend_available w \<Longrightarrow> load_model w m s = (True, s)"
  by (simp add: load_model_def)

lemma load_model_success_resident:
  assumes "load_model w m s = (True, s')" "backend_available w"
  shows "current_model s' \<noteq> None \<and> current_model_name s' = m"
  using load_model_cases [OF assms(1)] assms(2) by auto

lemma load_model_log:
  assumes "load_model w m s = (ok, s')"
  shows "load_log s' = load_log s \<or> (\<exists>src. load_log s' = load_log s @ [(src, ok)])"
  using load_model_cases [OF assms] by auto

lemma load_model_completed:
  assumes "load_model w m s = (ok, s')"
  shows "completed_loads (load_log s') \<le> completed_loads (load_log s) + 1"
  using load_model_log [OF assms] by (auto simp: completed_loads_def)

lemma load_model_calls:
  assumes "load_model w m s = (ok, s')"
  shows "length (load_log s') \<le> length (load_log s) + 1"
  using load_model_log [OF assms] by auto

lemma load_model_failure_unchanged:
  assumes "load_model w m s = (False, s')"
  shows "s' = s\<lparr>load_log := load_log s'\<rparr>"
  using load_model_cases [OF assms] by auto

lemma load_model_switch:
  assumes "load_model w m s = (True, s')" "backend_available w" "current_model_name s \<noteq> m"
  shows "\<exists>src. load_log s' = load_log s @ [(src, True)]"
  using load_model_cases [OF assms(1)] assms(2,3) by auto

text \<open>
  Claim C2. For every model identifier, two calls of the load operation in a row with
  the same identifier construct a model at most once: a call on a state whose resident
  handle already belongs to the identifier is a no-op that returns success, so after a
  successful first call the second call returns success, changes nothing and calls the
  constructor not at all. Starting with \<open>base\<close> loaded, the sequence \<open>base\<close>,
  \<open>large-v3-turbo\<close>, \<open>base\<close> calls the constructor at most twice, and exactly twice when the
  two switches succeed.
\<close>

theorem load_model_idempotent:
  "(current_model s \<noteq> None \<and> current_model_name s = model_id \<longrightarrow>
      load_model w1 model_id s = (True, s)) \<and>
   (let r1 = load_model w1 model_id s;
        r2 = load_model w2 model_id (snd r1)
    in (backend_available w2 = backend_available w1 \<and> fst r1 \<longrightarrow>
          r2 = (True, snd r1) \<and>
          length (load_log (snd r2)) \<le> length (load_log s) + 1) \<and>
       completed_loads (load_log (snd r2)) \<le> completed_loads (load_log s) + 1) \<and>
   (current_model t \<noteq> None \<and> current_model_name t = ''base'' \<longrightarrow>
      (let r1 = load_model v1 ''base'' t;
           r2 = load_model v2 ''large-v3-turbo'' (snd r1);
           r3 = load_model v3 ''base'' (snd r2)
       in length (load_log (snd r3)) \<le> length (load_log t) + 2 \<and>
          (backend_available v2 \<and> backend_available v3 \<and> fst r2 \<and> fst r3 \<longrightarrow>
             length (load_log (snd r3)) = length (load_log t) + 2 \<and>
             completed_loads (load_log (snd r3)) = completed_loads (load_log t) + 2)))"
proof (intro conjI)
  show "current_model s \<noteq> None \<and> current_model_name s = model_id \<longrightarrow>
      load_model w1 model_id s = (True, s)"
    by (simp add: load_model_noop)
next
  obtain ok1 s1 where r1: "load_model w1 model_id s = (ok1, s1)"
    by (cases "load_model w1 model_id s")
  obtain ok2 s2 where r2: "load_model w2 model_id s1 = (ok2, s2)"
    by (cases "load_model w2 model_id s1")
  have again: "ok2 \<and> s2 = s1" if "backend_available w2 = backend_available w1" "ok1"
  proof (cases "backend_available w1")
    case True
    with r1 that have "current_model s1 \<noteq> None \<and> current_model_name s1 = model_id"
      using load_model_success_resident [of w1 model_id s s1] by simp
    then show ?thesis using r2 by (simp add: load_model_noop)
  next
    case False
    with that have "\<not> backend_available w2" by simp
    then show ?thesis using r2 by (simp add: load_model_degraded)
  qed
  have calls: "length (load_log s1) \<le> length (load_log s) + 1"
    by (rule load_model_calls [OF r1])
  have completed: "completed_loads (load_log s2) \<le> completed_loads (load_log s) + 1"
  proof (cases "backend_available w1 \<and> ok1")
    case True
    then have res: "current_model s1 \<noteq> None \<and> current_model_name s1 = model_id"
      using r1 load_model_success_resident [of w1 model_id s s1] by simp
    have "s2 = s1"
    proof (cases "backend_available w2")
      case True
      with res r2 show ?thesis by (simp add: load_model_noop)
    next
      case False
      with r2 show ?thesis by (simp add: load_model_degraded)
    qed
    then show ?thesis using load_model_completed [OF r1] by simp
  next
    case False
    then have "load_log s1 = load_log s \<or> (\<exists>src. load_log s1 = load_log s @ [(src, False)])"
      using load_model_cases [OF r1] by auto
    then have "completed_loads (load_log s1) = completed_loads (load_log s)"
      by (auto simp: completed_loads_def)
    then show ?thesis using load_model_completed [OF r2] by simp
  qed
  show "let r1 = load_model w1 model_id s;
        r2 = load_model w2 model_id (snd r1)
    in (backend_available w2 = backend_available w1 \<and> fst r1 \<longrightarrow>
          r2 = (True, snd r1) \<and>
          length (load_log (snd r2)) \<le> length (load_log s) + 1) \<and>
       completed_loads (load_log (snd r2)) \<le> completed_loads (load_log s) + 1"
    using again calls completed by (simp add: Let_def r1 r2)
next
  show "current_model t \<noteq> None \<and> current_model_name t = ''base'' \<longrightarrow>
      (let r1 = load_model v1 ''base'' t;
           r2 = load_model v2 ''large-v3-turbo'' (snd r1);
           r3 = load_model v3 ''base'' (snd r2)
       in length (load_log (snd r3)) \<le> length (load_log t) + 2 \<and>
          (backend_available v2 \<and> backend_available v3 \<and> fst r2 \<and> fst r3 \<longrightarrow>
             length (load_log (snd r3)) = length (load_log t) + 2 \<and>
             completed_loads (load_log (snd r3)) = completed_loads (load_log t) + 2))"
  proof
    assume loaded: "current_model t \<noteq> None \<and> current_model_name t = ''base''"
    then have r1: "load_model v1 ''base'' t = (True, t)"
      by (simp add: load_model_noop)
    obtain ok2 s2 where r2: "load_model v2 ''large-v3-turbo'' t = (ok2, s2)"
      by (cases "load_model v2 ''large-v3-turbo'' t")
    obtain ok3 s3 where r3: "load_model v3 ''base'' s2 = (ok3, s3)"
      by (cases "load_model v3 ''base'' s2")
    have le: "length (load_log s3) \<le> length (load_log t) + 2"
      using load_model_calls [OF r2] load_model_calls [OF r3] by simp
    have eq: "length (load_log s3) = length (load_log t) + 2 \<and>
              completed_loads (load_log s3) = completed_loads (load_log t) + 2"
      if "backend_available v2" "backend_available v3" "ok2" "ok3"
    proof -
      from loaded have "current_model_name t \<noteq> ''large-v3-turbo''" by simp
      with r2 that obtain src2 where l2: "load_log s2 = load_log t @ [(src2, True)]"
        using load_model_switch [of v2 "''large-v3-turbo''" t s2] by auto
      from r2 that have "current_model_name s2 = ''large-v3-turbo''"
        using load_model_success_resident [of v2 "''large-v3-turbo''" t s2] by simp
      then have "current_model_name s2 \<noteq> ''base''" by simp
      with r3 that obtain src3 where l3: "load_log s3 = load_log s2 @ [(src3, True)]"
        using load_model_switch [of v3 "''base''" s2 s3] by auto
      from l2 l3 show ?thesis by (simp add: completed_loads_def)
    qed
    show "let r1 = load_model v1 ''base'' t;
           r2 = load_model v2 ''large-v3-turbo'' (snd r1);
           r3 = load_model v3 ''base'' (snd r2)
       in length (load_log (snd r3)) \<le> length (load_log t) + 2 \<and>
          (backend_available v2 \<and> backend_available v3 \<and> fst r2 \<and> fst r3 \<longrightarrow>
             length (load_log (snd r3)) = length (load_log t) + 2 \<and>
             completed_loads (load_log (snd r3)) = completed_loads (load_log t) + 2)"
      using le eq by (simp add: Let_def r1 r2 r3)
  qed
qed

lemma example_turbo:
  "load_model example_world ''large-v3-turbo'' example_state =
     (True,
      example_state
        \<lparr>current_model := Some 14,
         current_model_name := ''large-v3-turbo'',
         load_log := [(LocalModel ''large-v3-turbo'', True)],
         model_config_file :=
           Json \<lparr>cfg_current_model = Some ''large-v3-turbo'',
                 cfg_subtitle_output_format = Some ''vtt'',
                 cfg_updated_at = Some ''2024-05-17T09:30:15.250000''\<rparr>\<rparr>)"
  by (simp add: load_model_def example_world_def example_state_def save_config_def)

theorem load_model_idempotent_witness:
  "current_model example_state \<noteq> None \<and> current_model_name example_state = ''base'' \<and>
   load_model example_world ''base'' example_state = (True, example_state) \<and>
   backend_available example_world = backend_available example_world \<and>
   fst (load_model example_world ''large-v3-turbo'' example_state) \<and>
   load_model example_world ''large-v3-turbo''
       (snd (load_model example_world ''large-v3-turbo'' example_state)) =
     (True, snd (load_model example_world ''large-v3-turbo'' example_state)) \<and>
   load_log (snd (load_model example_world ''large-v3-turbo''
       (snd (load_model example_world ''large-v3-turbo'' example_state)))) =
     [(LocalModel ''large-v3-turbo'', True)] \<and>
   backend_available example_world \<and>
   fst (load_model example_world ''base''
       (snd (load_model example_world ''large-v3-turbo''
          (snd (load_model example_world ''base'' example_state))))) \<and>
   length (load_log (snd (load_model example_world ''base''
       (snd (load_model example_world ''large-v3-turbo''
          (snd (load_model example_world ''base'' example_state))))))) =
     length (load_log example_state) + 2"
proof -
  note t = load_model_idempotent [of example_state "''large-v3-turbo''" example_world
      example_world example_state example_world example_world example_world]
  have base: "current_model example_state \<noteq> None \<and> current_model_name example_state = ''base''"
    by (simp add: example_state_def)
  have avail: "backend_available example_world"
    by (simp add: example_world_def)
  have first: "load_model example_world ''base'' example_state = (True, example_state)"
    using base by (simp add: load_model_noop)
  have turbo_ok: "fst (load_model example_world ''large-v3-turbo'' example_state)"
    by (simp add: example_turbo)
  have third: "fst (load_model example_world ''base''
       (snd (load_model example_world ''large-v3-turbo'' example_state)))"
    by (simp add: example_turbo) (simp add: load_model_def example_world_def example_state_def)
  have twice: "load_model example_world ''large-v3-turbo''
       (snd (load_model example_world ''large-v3-turbo'' example_state)) =
     (True, snd (load_model example_world ''large-v3-turbo'' example_state))"
    using t avail turbo_ok by (simp add: Let_def)
  have twice_log: "load_log (snd (load_model example_world ''large-v3-turbo''
       (snd (load_model example_world ''large-v3-turbo'' example_state)))) =
     [(LocalModel ''large-v3-turbo'', True)]"
    by (simp add: twice) (simp add: example_turbo)
  have seq: "length (load_log (snd (load_model example_world ''base''
       (snd (load_model example_world ''large-v3-turbo'' example_state))))) =
     length (load_log example_state) + 2"
    using t base avail turbo_ok third by (simp add: Let_def first)
  show ?thesis
    using base first avail turbo_ok twice twice_log third seq by simp
qed

text \<open>
  Claim C3. For every model identifier, a load that fails (in particular every load
  whose model construction raises) returns \<open>False\<close> instead of raising and leaves the
  resident handle, the current identifier, the selection record, the format and the files
  as they were; \<open>select_model\<close> then returns a failure result with the load-failure
  message. \<open>select_model\<close> on an identifier outside the static registry returns a failure
  result with the unsupported-model message and leaves the state unchanged.
\<close>

theorem load_failure_atomic:
  "(\<not> fst (load_model w m s) \<longrightarrow>
      current_model (snd (load_model w m s)) = current_model s \<and>
      current_model_name (snd (load_model w m s)) = current_model_name s \<and>
      model_config_file (snd (load_model w m s)) = model_config_file s \<and>
      subtitle_output_format (snd (load_model w m s)) = subtitle_output_format s \<and>
      fs (snd (load_model w m s)) = fs s) \<and>
   (backend_available w \<and> \<not> (current_model s \<noteq> None \<and> current_model_name s = m) \<and>
    isl (whisper_model w (LocalModel m)) \<and> isl (whisper_model w (DownloadModel m)) \<longrightarrow>
      \<not> fst (load_model w m s)) \<and>
   (m \<notin> set WHISPER_AVAILABLE_MODELS \<longrightarrow>
      select_model w m s =
        (\<lparr>sel_success = False, sel_message = UnsupportedModel m, sel_current_model = None\<rparr>, s)) \<and>
   (m \<in> set WHISPER_AVAILABLE_MODELS \<and> \<not> fst (load_model w m s) \<longrightarrow>
      fst (select_model w m s) =
        \<lparr>sel_success = False, sel_message = ModelLoadFailed m, sel_current_model = None\<rparr> \<and>
      snd (select_model w m s) = snd (load_model w m s))"
proof (intro conjI impI)
  obtain ok s' where r: "load_model w m s = (ok, s')"
    by (cases "load_model w m s")
  {
    assume "\<not> fst (load_model w m s)"
    with r have "load_model w m s = (False, s')" by simp
    then have "s' = s\<lparr>load_log := load_log s'\<rparr>"
      by (rule load_model_failure_unchanged)
    then have "current_model s' = current_model s \<and> current_model_name s' = current_model_name s \<and>
        model_config_file s' = model_config_file s \<and>
        subtitle_output_format s' = subtitle_output_format s \<and> fs s' = fs s"
      by (metis state.select_convs(1-5) state.surjective state.update_convs(6))
  }
  note unchanged = this
  show "current_model (snd (load_model w m s)) = current_model s"
    if "\<not> fst (load_model w m s)" using unchanged [OF that] r by simp
  show "current_model_name (snd (load_model w m s)) = current_model_name s"
    if "\<not> fst (load_model w m s)" using unchanged [OF that] r by simp
  show "model_config_file (snd (load_model w m s)) = model_config_file s"
    if "\<not> fst (load_model w m s)" using unchanged [OF that] r by simp
  show "subtitle_output_format (snd (load_model w m s)) = subtitle_output_format s"
    if "\<not> fst (load_model w m s)" using unchanged [OF that] r by simp
  show "fs (snd (load_model w m s)) = fs s"
    if "\<not> fst (load_model w m s)" using unchanged [OF that] r by simp
next
  assume "backend_available w \<and> \<not> (current_model s \<noteq> None \<and> current_model_name s = m) \<and>
    isl (whisper_model w (LocalModel m)) \<and> isl (whisper_model w (DownloadModel m))"
  then show "\<not> fst (load_model w m s)"
    by (auto simp: load_model_def isl_def split: sum.splits option.splits)
next
  assume "m \<notin> set WHISPER_AVAILABLE_MODELS"
  then show "select_model w m s =
        (\<lparr>sel_success = False, sel_message = UnsupportedModel m, sel_current_model = None\<rparr>, s)"
    by (simp add: select_model_def)
next
  assume a: "m \<in> set WHISPER_AVAILABLE_MODELS \<and> \<not> fst (load_model w m s)"
  then show "fst (select_model w m s) =
        \<lparr>sel_success = False, sel_message = ModelLoadFailed m, sel_current_model = None\<rparr>"
    by (cases "load_model w m s") (simp add: select_model_def)
  from a show "snd (select_model w m s) = snd (load_model w m s)"
    by (cases "load_model w m s") (simp add: select_model_def)
qed

theorem load_failure_atomic_witness:
  "\<not> fst (load_model broken_world ''large-v3-turbo'' example_state) \<and>
   backend_available broken_world \<and>
   isl (whisper_model broken_world (LocalModel ''large-v3-turbo'')) \<and>
   current_model (snd (load_model broken_world ''large-v3-turbo'' example_state)) = Some 4 \<and>
   current_model_name (snd (load_model broken_world ''large-v3-turbo'' example_state)) = ''base'' \<and>
   ''large-v3-turbo'' \<in> set WHISPER_AVAILABLE_MODELS \<and>
   fst (select_model broken_world ''large-v3-turbo'' example_state) =
     \<lparr>sel_success = False, sel_message = ModelLoadFailed ''large-v3-turbo'',
      sel_current_model = None\<rparr> \<and>
   ''tiny'' \<notin> set WHISPER_AVAILABLE_MODELS \<and>
   select_model example_world ''tiny'' example_state =
     (\<lparr>sel_success = False, sel_message = UnsupportedModel ''tiny'', sel_current_model = None\<rparr>,
      example_state)"
proof -
  note t1 = load_failure_atomic [of broken_world "''large-v3-turbo''" example_state]
  note t2 = load_failure_atomic [of example_world "''tiny''" example_state]
  have pre: "backend_available broken_world \<and>
      \<not> (current_model example_state \<noteq> None \<and> current_model_name example_state = ''large-v3-turbo'') \<and>
      isl (whisper_model broken_world (LocalModel ''large-v3-turbo'')) \<and>
      isl (whisper_model broken_world (DownloadModel ''large-v3-turbo''))"
    by (simp add: broken_world_def example_world_def example_state_def)
  with t1 have fails: "\<not> fst (load_model broken_world ''large-v3-turbo'' example_state)"
    by blast
  have reg: "''large-v3-turbo'' \<in> set WHISPER_AVAILABLE_MODELS"
      "''tiny'' \<notin> set WHISPER_AVAILABLE_MODELS"
    by (simp_all add: WHISPER_AVAILABLE_MODELS_def)
  have old: "current_model example_state = Some 4" "current_model_name example_state = ''base''"
    by (simp_all add: example_state_def)
  from t1 fails reg old pre t2 show ?thesis by simp
qed

text \<open>
  Claim C8, as the program has it. When the recognition backend is available and the
  load reports success, the current identifier is the requested one afterwards and a
  handle is resident. When that load constructed a model (the identifier was not already
  loaded) and the selection record could be written, the record holds the identifier,
  and a process start that reads the record resumes with it. In the degraded mode the
  load reports success and changes nothing: neither the current identifier nor the
  record.
\<close>

theorem load_success_persists:
  "(backend_available w \<and> fst (load_model w m s) \<longrightarrow>
      current_model_name (snd (load_model w m s)) = m \<and>
      current_model (snd (load_model w m s)) \<noteq> None) \<and>
   (backend_available w \<and> fst (load_model w m s) \<and>
    \<not> (current_model s \<noteq> None \<and> current_model_name s = m) \<and> write_config w = WriteOk \<longrightarrow>
      (\<exists>c. model_config_file (snd (load_model w m s)) = Json c \<and> cfg_current_model c = Some m) \<and>
      current_model_name
        (init w' env_format (model_config_file (snd (load_model w m s))) files) = m) \<and>
   (\<not> backend_available w \<longrightarrow> load_model w m s = (True, s))"
proof (intro conjI impI)
  assume a: "backend_available w \<and> fst (load_model w m s)"
  obtain s' where "load_model w m s = (True, s')"
    using a by (cases "load_model w m s") simp
  with a show "current_model_name (snd (load_model w m s)) = m"
      "current_model (snd (load_model w m s)) \<noteq> None"
    using load_model_success_resident [of w m s s'] by simp_all
next
  assume a: "backend_available w \<and> fst (load_model w m s) \<and>
    \<not> (current_model s \<noteq> None \<and> current_model_name s = m) \<and> write_config w = WriteOk"
  obtain s' where r: "load_model w m s = (True, s')"
    using a by (cases "load_model w m s") simp
  from load_model_cases [OF r] a obtain src h where
    s': "s' = save_config w (s\<lparr>current_model := Some h, current_model_name := m,
                               load_log := load_log s @ [(src, True)]\<rparr>)"
    by auto
  with a have cfg: "model_config_file s' =
      Json \<lparr>cfg_current_model = Some m,
            cfg_subtitle_output_format = Some (subtitle_output_format s),
            cfg_updated_at = Some (now_iso w)\<rparr>"
    by (simp add: save_config_def)
  with r show "\<exists>c. model_config_file (snd (load_model w m s)) = Json c \<and> cfg_current_model c = Some m"
    by simp
  from cfg r show "current_model_name
        (init w' env_format (model_config_file (snd (load_model w m s))) files) = m"
    by (simp add: init_def load_config_def Let_def)
next
  assume "\<not> backend_available w"
  then show "load_model w m s = (True, s)"
    by (rule load_model_degraded)
qed

theorem load_success_persists_witness:
  "backend_available example_world \<and>
   fst (load_model example_world ''large-v3-turbo'' example_state) \<and>
   write_config example_world = WriteOk \<and>
   current_model_name (snd (load_model example_world ''large-v3-turbo'' example_state)) =
     ''large-v3-turbo'' \<and>
   current_model_name
     (init degraded_world ''vtt''
        (model_config_file (snd (load_model example_world ''large-v3-turbo'' example_state)))
        Map.empty) = ''large-v3-turbo'' \<and>
   \<not> backend_available degraded_world \<and>
   load_model degraded_world ''large-v3-turbo'' example_state = (True, example_state)"
proof -
  note t1 = load_success_persists [of example_world "''large-v3-turbo''" example_state
      degraded_world "''vtt''" Map.empty]
  note t2 = load_success_persists [of degraded_world "''large-v3-turbo''" example_state]
  have pre: "backend_available example_world" "write_config example_world = WriteOk"
      "\<not> backend_available degraded_world"
      "\<not> (current_model example_state \<noteq> None \<and> current_model_name example_state = ''large-v3-turbo'')"
    by (simp_all add: example_world_def degraded_world_def example_state_def)
  have ok: "fst (load_model example_world ''large-v3-turbo'' example_state)"
    by (simp add: example_turbo)
  from t1 t2 pre ok show ?thesis by blast
qed

text \<open>
  Claim C8 as stated fails in the degraded mode: the load of \<open>large-v3-turbo\<close> reports
  success, the current identifier stays \<open>base\<close>, the record is not rewritten, and a process
  start resumes with \<open>base\<close>.
\<close>

theorem load_success_persists_counterexample:
  "fst (load_model degraded_world ''large-v3-turbo'' example_state) \<and>
   current_model_name (snd (load_model degraded_world ''large-v3-turbo'' example_state)) = ''base'' \<and>
   ''base'' \<noteq> ''large-v3-turbo'' \<and>
   model_config_file (snd (load_model degraded_world ''large-v3-turbo'' example_state)) =
     model_config_file example_state \<and>
   current_model_name
     (init degraded_world ''vtt''
        (model_config_file (snd (load_model degraded_world ''large-v3-turbo'' example_state)))
        (fs (snd (load_model degraded_world ''large-v3-turbo'' example_state)))) = ''base''"
proof -
  have r: "load_model degraded_world ''large-v3-turbo'' example_state = (True, example_state)"
    by (simp add: load_model_def degraded_world_def example_world_def)
  show ?thesis
    by (simp add: r) (simp add: example_state_def init_def load_config_def Let_def)
qed

section \<open>Paths and time stamps\<close>

lemma split_sep_nonempty: "split_sep c s \<noteq> []"
  by (induction s) (auto split: list.splits)

lemma split_sep_notin: "c \<notin> set s \<Longrightarrow> split_sep c s = [s]"
  by (induction s) auto

lemma split_sep_append: "c \<notin> set a \<Longrightarrow> split_sep c (a @ c # r) = a # split_sep c r"
  by (induction a) (auto split: list.splits)

lemma split_join:
  "ps \<noteq> [] \<Longrightarrow> \<forall>p \<in> set ps. CHR ''/'' \<notin> set p \<Longrightarrow>
     split_sep (CHR ''/'') (join_sep ps) = ps"
proof (induction ps rule: join_sep.induct)
  case 1
  then show ?case by simp
next
  case (2 p)
  then show ?case by (simp add: split_sep_notin)
next
  case (3 p q ps)
  then have "split_sep (CHR ''/'') (join_sep (q # ps)) = q # ps" by simp
  moreover from 3 have "CHR ''/'' \<notin> set p" by simp
  ultimately show ?case by (simp add: split_sep_append)
qed

lemma join_sep_hd:
  "ps \<noteq> [] \<Longrightarrow> hd ps \<noteq> [] \<Longrightarrow> join_sep ps \<noteq> [] \<and> hd (join_sep ps) = hd (hd ps)"
  by (induction ps rule: join_sep.induct) auto

lemma parse_simple_name:
  "simple_name n \<Longrightarrow> parse_path n = \<lparr>path_root = '''', path_parts = [n]\<rparr>"
  by (cases n) (auto simp: simple_name_def parse_path_def startswith_def split_sep_notin)

lemma path_join_simple:
  "simple_name n \<Longrightarrow>
     path_join p n = \<lparr>path_root = path_root p, path_parts = path_parts p @ [n]\<rparr>"
  by (simp add: path_join_def parse_simple_name)

lemma wf_path_join:
  "wf_path p \<Longrightarrow> simple_name n \<Longrightarrow> wf_path (path_join p n)"
  by (simp add: path_join_simple wf_path_def simple_name_def)

lemma parent_path_join: "simple_name n \<Longrightarrow> parent (path_join p n) = p"
  by (simp add: path_join_simple parent_def)

lemma parse_relative:
  assumes "ps \<noteq> []" "\<forall>p \<in> set ps. p \<noteq> '''' \<and> p \<noteq> ''.'' \<and> CHR ''/'' \<notin> set p"
  shows "parse_path (join_sep ps) = \<lparr>path_root = '''', path_parts = ps\<rparr>"
proof -
  from assms have hd: "hd ps \<noteq> []" "CHR ''/'' \<notin> set (hd ps)"
    by (cases ps; simp)+
  with assms have j: "join_sep ps \<noteq> []" "hd (join_sep ps) = hd (hd ps)"
    using join_sep_hd by blast+
  from hd have "hd (hd ps) \<noteq> CHR ''/''"
    by (cases "hd ps") auto
  with j have "\<not> startswith (join_sep ps) ''/''" "\<not> startswith (join_sep ps) ''//''"
    by (cases "join_sep ps"; auto simp: startswith_def)+
  moreover have "filter (\<lambda>p. p \<noteq> '''' \<and> p \<noteq> ''.'') ps = ps"
    using assms by (simp add: filter_id_conv)
  ultimately show ?thesis
    using assms by (simp add: parse_path_def split_join)
qed

lemma parse_rooted:
  assumes "ps \<noteq> []" "\<forall>p \<in> set ps. p \<noteq> '''' \<and> p \<noteq> ''.'' \<and> CHR ''/'' \<notin> set p"
  shows "parse_path (''/'' @ join_sep ps) = \<lparr>path_root = ''/'', path_parts = ps\<rparr>"
proof -
  from assms have hd: "hd ps \<noteq> []" "CHR ''/'' \<notin> set (hd ps)"
    by (cases ps; simp)+
  with assms have j: "join_sep ps \<noteq> []" "hd (join_sep ps) = hd (hd ps)"
    using join_sep_hd by blast+
  from hd have "hd (hd ps) \<noteq> CHR ''/''"
    by (cases "hd ps") auto
  with j have "\<not> startswith (''/'' @ join_sep ps) ''//''" "startswith (''/'' @ join_sep ps) ''/''"
    by (cases "join_sep ps"; auto simp: startswith_def)+
  moreover have "filter (\<lambda>p. p \<noteq> '''' \<and> p \<noteq> ''.'') ps = ps"
    using assms by (simp add: filter_id_conv)
  ultimately show ?thesis
    using assms by (simp add: parse_path_def split_join)
qed

lemma parse_double_rooted:
  assumes "ps \<noteq> []" "\<forall>p \<in> set ps. p \<noteq> '''' \<and> p \<noteq> ''.'' \<and> CHR ''/'' \<notin> set p"
  shows "parse_path (''//'' @ join_sep ps) = \<lparr>path_root = ''//'', path_parts = ps\<rparr>"
proof -
  from assms have hd: "hd ps \<noteq> []" "CHR ''/'' \<notin> set (hd ps)"
    by (cases ps; simp)+
  with assms have j: "join_sep ps \<noteq> []" "hd (join_sep ps) = hd (hd ps)"
    using join_sep_hd by blast+
  from hd have "hd (hd ps) \<noteq> CHR ''/''"
    by (cases "hd ps") auto
  with j have "\<not> startswith (''//'' @ join_sep ps) ''///''" "startswith (''//'' @ join_sep ps) ''//''"
    by (cases "join_sep ps"; auto simp: startswith_def)+
  moreover have "filter (\<lambda>p. p \<noteq> '''' \<and> p \<noteq> ''.'') ps = ps"
    using assms by (simp add: filter_id_conv)
  ultimately show ?thesis
    using assms by (simp add: parse_path_def split_join)
qed

text \<open>A well-formed path with at least one component is read back from its string.\<close>

lemma parse_path_to_str:
  assumes "wf_path p" "path_parts p \<noteq> []"
  shows "parse_path (path_to_str p) = p"
proof -
  from assms have ps: "\<forall>c \<in> set (path_parts p). c \<noteq> '''' \<and> c \<noteq> ''.'' \<and> CHR ''/'' \<notin> set c"
    by (simp add: wf_path_def list_all_iff)
  from assms have "path_root p = '''' \<or> path_root p = ''/'' \<or> path_root p = ''//''"
    by (simp add: wf_path_def)
  then show ?thesis
  proof (elim disjE)
    assume "path_root p = ''''"
    then show ?thesis
      using parse_relative [OF assms(2) ps] assms(2) by (simp add: path_to_str_def)
  next
    assume "path_root p = ''/''"
    then show ?thesis
      using parse_rooted [OF assms(2) ps] by (simp add: path_to_str_def)
  next
    assume "path_root p = ''//''"
    then show ?thesis
      using parse_double_rooted [OF assms(2) ps] by (simp add: path_to_str_def)
  qed
qed

lemma not_digit_slash: "is_digit c \<Longrightarrow> c \<noteq> CHR ''/'' \<and> c \<noteq> CHR ''_'' \<and> c \<noteq> CHR ''.''"
  by (auto simp: is_digit_def)

lemma format_0d_nat_digits: "list_all is_digit (format_0d k (int n))"
  by (simp add: format_0d_def zfill_digits decimal_digits)

lemma format_0d_no_slash: "CHR ''/'' \<notin> set (format_0d k (int n))"
  using format_0d_nat_digits [of k n] not_digit_slash by (auto simp: list_all_iff)

lemma strftime_seconds_no_slash: "CHR ''/'' \<notin> set (strftime_seconds d)"
  by (simp add: strftime_seconds_def format_0d_no_slash)

lemma strftime_micro_no_slash: "CHR ''/'' \<notin> set (strftime_micro d)"
  by (simp add: strftime_micro_def strftime_seconds_no_slash format_0d_no_slash)

lemma scratch_name_simple:
  "simple_name (''preprocessed_audio_'' @ strftime_micro d @ ''.mp3'')"
  by (simp add: simple_name_def strftime_micro_no_slash)

lemma temp_simple: "simple_name ''Temp''"
  by (simp add: simple_name_def)

text \<open>
  The scratch path of a call is read back by \<open>_cleanup_temp_file\<close> as a file directly in
  the Temp directory.
\<close>

lemma scratch_inside_temp:
  assumes "wf_path (project_root w)"
  shows "inside_temp w (path_to_str (temp_output w))"
proof -
  let ?n = "''preprocessed_audio_'' @ strftime_micro (now_preprocess w) @ ''.mp3''"
  have out: "temp_output w = path_join (temp_dir w) ?n"
    by (simp add: temp_output_def)
  have wf_temp: "wf_path (temp_dir w)"
    unfolding temp_dir_def by (rule wf_path_join [OF assms temp_simple])
  have wf_out: "wf_path (temp_output w)"
    unfolding out by (rule wf_path_join [OF wf_temp scratch_name_simple])
  have "path_parts (temp_output w) \<noteq> []"
    unfolding out by (subst path_join_simple [OF scratch_name_simple]) simp
  with wf_out have "parse_path (path_to_str (temp_output w)) = temp_output w"
    by (rule parse_path_to_str)
  moreover have "parent (temp_output w) = temp_dir w"
    unfolding out by (rule parent_path_join [OF scratch_name_simple])
  ultimately show ?thesis by (simp add: inside_temp_def)
qed

section \<open>Cleanup and normalizer\<close>

lemma try_except_Inr [simp]: "try_except (Inr x) h = Inr x"
  by (simp add: try_except_def)

lemma try_except_Inl [simp]: "try_except (Inl e) h = h e"
  by (simp add: try_except_def)

lemma cleanup_temp_file_cases:
  "cleanup_temp_file w file_path files =
     (Inr (),
      if file_path \<noteq> '''' \<and> files file_path \<noteq> None \<and> inside_temp w file_path \<and>
         os_remove w file_path = None
      then files(file_path := None) else files)"
  by (auto simp: cleanup_temp_file_def cleanup_body_def inside_temp_def Let_def
      split: option.splits)



lemma preprocess_audio_never_raises: "\<exists>p. fst (preprocess_audio w input_path files) = Inr p"
  by (auto simp: preprocess_audio_def preprocess_body_def Let_def
      split: option.splits ffmpeg_outcome.splits)

lemma preprocess_audio_fails:
  "normalizer_fails w input_path files \<Longrightarrow>
     fst (preprocess_audio w input_path files) = Inr input_path"
  by (auto simp: normalizer_fails_def preprocess_audio_def preprocess_body_def Let_def
      split: option.splits ffmpeg_outcome.splits)

lemma preprocess_audio_result:
  "fst (preprocess_audio w input_path files) = Inr input_path \<or>
   fst (preprocess_audio w input_path files) = Inr (path_to_str (temp_output w))"
  by (auto simp: preprocess_audio_def preprocess_body_def Let_def
      split: option.splits ffmpeg_outcome.splits)

lemma preprocess_audio_frame:
  "p \<noteq> path_to_str (temp_output w) \<Longrightarrow> snd (preprocess_audio w input_path files) p = files p"
  by (auto simp: preprocess_audio_def preprocess_body_def Let_def
      split: option.splits ffmpeg_outcome.splits)

lemma preprocess_audio_keeps:
  "files p \<noteq> None \<Longrightarrow> snd (preprocess_audio w input_path files) p \<noteq> None"
  by (auto simp: preprocess_audio_def preprocess_body_def Let_def
      split: option.splits ffmpeg_outcome.splits)

section \<open>\<open>extract_subtitle\<close>\<close>

lemma load_model_fs: "fs (snd (load_model w m s)) = fs s"
proof -
  obtain ok s' where r: "load_model w m s = (ok, s')"
    by (cases "load_model w m s")
  from load_model_cases [OF r] have "fs s' = fs s" by auto
  with r show ?thesis by simp
qed

lemma choose_model_fs: "fs (snd (choose_model w model_name s)) = fs s"
proof -
  have a: "fs (snd (case load_model w m s of (True, s') \<Rightarrow> (None, s') | (False, s') \<Rightarrow> (Some f, s'))) = fs s"
    for m f
    using load_model_fs [of w m s] by (cases "load_model w m s") (auto split: bool.splits)
  show ?thesis
    by (simp add: choose_model_def a)
qed

lemma choose_model_resident:
  assumes "choose_model w model_name s = (None, s1)" "backend_available w"
  shows "current_model s1 \<noteq> None"
proof -
  have a: "current_model s' \<noteq> None" if "load_model w m s = (True, s')" for m s'
    using load_model_success_resident [OF that assms(2)] by simp
  from assms(1) show ?thesis
    unfolding choose_model_def
    by (auto split: if_splits prod.splits bool.splits dest: a)
qed

text \<open>
  The model selection of \<open>extract_subtitle\<close> settles in the same way: once it has gone
  through with the backend available, repeating it with the same argument loads nothing.
\<close>

lemma choose_model_settles:
  assumes first: "choose_model w model_name s = (None, s1)" and backend: "backend_available w"
  shows "choose_model w' model_name s1 = (None, s1)"
proof -
  have resident: "current_model s1 \<noteq> None"
    by (rule choose_model_resident [OF first backend])
  have name: "model_name = None \<or> model_name = Some '''' \<or> model_name = Some (current_model_name s1)"
  proof (cases "model_name \<noteq> None \<and> model_name \<noteq> Some '''' \<and>
      model_name \<noteq> Some (current_model_name s)")
    case True
    then obtain m where m: "model_name = Some m" by auto
    from first True m have "load_model w m s = (True, s1)"
      by (cases "load_model w m s") (auto simp: choose_model_def split: bool.splits)
    then have "current_model_name s1 = m"
      using load_model_success_resident [of w m s s1] backend by simp
    with m show ?thesis by simp
  next
    case False
    have "current_model_name s1 = current_model_name s"
    proof (cases "current_model s = None")
      case True
      with first False have "load_model w (current_model_name s) s = (True, s1)"
        by (cases "load_model w (current_model_name s) s")
           (auto simp: choose_model_def split: bool.splits)
      then show ?thesis
        using load_model_success_resident [of w "current_model_name s" s s1] backend by simp
    next
      case no_load: False
      with first False show ?thesis
        by (auto simp: choose_model_def)
    qed
    with False show ?thesis by auto
  qed
  from name resident show ?thesis
    by (auto simp: choose_model_def)
qed

lemma save_subtitle_file_keeps:
  "fs s p \<noteq> None \<Longrightarrow> snd (save_subtitle_file w original segments s) p \<noteq> None"
  by (auto simp: save_subtitle_file_def Let_def split: write_outcome.splits)

text \<open>The body of \<open>extract_subtitle\<close> deletes nothing.\<close>

lemma extract_body_keeps:
  assumes "fs s p \<noteq> None"
  shows "fs (snd (snd (extract_body w file_path model_name language s))) p \<noteq> None"
proof (cases "fs s file_path = None")
  case True
  with assms show ?thesis by (simp add: extract_body_def)
next
  case exists: False
  obtain f s1 where cm: "choose_model w model_name s = (f, s1)"
    by (cases "choose_model w model_name s")
  then have s1: "fs s1 p \<noteq> None"
    using choose_model_fs [of w model_name s] assms by simp
  show ?thesis
  proof (cases f)
    case (Some g)
    with s1 show ?thesis by (simp add: extract_body_def exists cm)
  next
    case None
    show ?thesis
    proof (cases "backend_available w")
      case False
      obtain name files' where sv: "save_subtitle_file w file_path mock_segments s1 = (name, files')"
        by (cases "save_subtitle_file w file_path mock_segments s1")
      then have "files' p \<noteq> None"
        using save_subtitle_file_keeps [of s1 p w file_path mock_segments] s1 by simp
      with None False show ?thesis
        by (simp add: extract_body_def exists cm mock_extract_subtitle_def sv Let_def)
    next
      case True
      obtain r files2 where pp: "preprocess_audio w file_path (fs s1) = (r, files2)"
        by (cases "preprocess_audio w file_path (fs s1)")
      then have files2: "files2 p \<noteq> None"
        using preprocess_audio_keeps [of "fs s1" p w file_path] s1 by simp
      show ?thesis
      proof (cases r)
        case (Inl e)
        with None True files2 show ?thesis
          by (simp add: extract_body_def exists cm pp)
      next
        case (Inr pf)
        show ?thesis
        proof (cases "current_model s1")
          case no_model: None
          with None True files2 Inr show ?thesis
            by (simp add: extract_body_def exists cm pp Let_def)
        next
          case (Some h)
          show ?thesis
          proof (cases "transcribe w h pf (if language = ''auto'' then None else Some language)")
            case (Inl e)
            with None True files2 Inr Some show ?thesis
              by (simp add: extract_body_def exists cm pp Let_def del: if_split)
          next
            case tr: (Inr res)
            obtain segments info where res: "res = (segments, info)"
              by (cases res)
            obtain subtitle_segments full_text where
              cs: "collect_segments segments [] '''' = (subtitle_segments, full_text)"
              by (cases "collect_segments segments [] ''''")
            obtain name files3 where
              sv: "save_subtitle_file w file_path subtitle_segments (s1\<lparr>fs := files2\<rparr>) =
                     (name, files3)"
              by (cases "save_subtitle_file w file_path subtitle_segments (s1\<lparr>fs := files2\<rparr>)")
            have "fs (s1\<lparr>fs := files2\<rparr>) p \<noteq> None"
              using files2 by simp
            then have "files3 p \<noteq> None"
              using save_subtitle_file_keeps [of "s1\<lparr>fs := files2\<rparr>" p w file_path
                  subtitle_segments] sv by simp
            with None True Inr Some tr res show ?thesis
              by (simp add: extract_body_def exists cm pp cs sv Let_def del: if_split)
          qed
        qed
      qed
    qed
  qed
qed

text \<open>Once the normalizer has returned, its path is the value of \<open>preprocessed_file\<close>.\<close>

lemma extract_body_after_preprocess:
  assumes exists: "fs s file_path \<noteq> None"
    and cm: "choose_model w model_name s = (None, s1)"
    and backend: "backend_available w"
    and pp: "preprocess_audio w file_path (fs s1) = (Inr pf, files2)"
  shows "fst (snd (extract_body w file_path model_name language s)) = Some pf"
proof (cases "current_model s1")
  case None
  with backend show ?thesis
    by (simp add: extract_body_def exists cm pp Let_def)
next
  case (Some h)
  show ?thesis
  proof (cases "transcribe w h pf (if language = ''auto'' then None else Some language)")
    case (Inl e)
    with backend Some show ?thesis
      by (simp add: extract_body_def exists cm pp Let_def del: if_split)
  next
    case tr: (Inr res)
    obtain segments info where res: "res = (segments, info)"
      by (cases res)
    obtain subtitle_segments full_text where
      cs: "collect_segments segments [] '''' = (subtitle_segments, full_text)"
      by (cases "collect_segments segments [] ''''")
    obtain name files3 where
      sv: "save_subtitle_file w file_path subtitle_segments (s1\<lparr>fs := files2\<rparr>) =
             (name, files3)"
      by (cases "save_subtitle_file w file_path subtitle_segments (s1\<lparr>fs := files2\<rparr>)")
    from backend Some tr res show ?thesis
      by (simp add: extract_body_def exists cm pp cs sv Let_def del: if_split)
  qed
qed

lemma extract_body_preprocessed:
  assumes "fst (snd (extract_body w file_path model_name language s)) = Some p"
  shows "p = file_path \<or> p = path_to_str (temp_output w)"
proof (cases "fs s file_path = None")
  case True
  with assms show ?thesis by (simp add: extract_body_def)
next
  case exists: False
  obtain f s1 where cm: "choose_model w model_name s = (f, s1)"
    by (cases "choose_model w model_name s")
  show ?thesis
  proof (cases f)
    case (Some g)
    with assms show ?thesis by (simp add: extract_body_def exists cm)
  next
    case None
    show ?thesis
    proof (cases "backend_available w")
      case False
      obtain result s2 where m: "mock_extract_subtitle w file_path s1 = (result, s2)"
        by (cases "mock_extract_subtitle w file_path s1")
      with None False assms show ?thesis
        by (simp add: extract_body_def exists cm)
    next
      case True
      obtain r files2 where pp: "preprocess_audio w file_path (fs s1) = (r, files2)"
        by (cases "preprocess_audio w file_path (fs s1)")
      from preprocess_audio_result [of w file_path "fs s1"] pp
      have r: "r = Inr file_path \<or> r = Inr (path_to_str (temp_output w))" by simp
      then obtain pf where pf: "r = Inr pf" "pf = file_path \<or> pf = path_to_str (temp_output w)"
        by auto
      from exists cm None True pp pf(1)
      have "fst (snd (extract_body w file_path model_name language s)) = Some pf"
        using extract_body_after_preprocess [of s file_path w model_name s1 pf files2 language]
        by simp
      with assms pf show ?thesis by simp
    qed
  qed
qed

text \<open>The \<open>finally\<close> clause, on every way out of the body.\<close>

lemma extract_subtitle_finally:
  assumes "extract_body w file_path model_name language s = (outcome, preprocessed_file, s')"
  shows "extract_subtitle w file_path model_name language s =
     (try_except outcome (\<lambda>e. Inr (Failed (ExtractionFailure e))),
      if preprocessed_file \<noteq> None \<and> preprocessed_file \<noteq> Some '''' \<and>
         preprocessed_file \<noteq> Some file_path
      then s'\<lparr>fs := snd (cleanup_temp_file w (the preprocessed_file) (fs s'))\<rparr>
      else s')"
  by (simp add: extract_subtitle_def assms cleanup_temp_file_cases Let_def)

lemma extract_subtitle_never_raises:
  "\<exists>r. fst (extract_subtitle w file_path model_name language s) = Inr r"
proof -
  obtain outcome pf s' where b: "extract_body w file_path model_name language s = (outcome, pf, s')"
    by (cases "extract_body w file_path model_name language s")
  show ?thesis
    by (cases outcome) (simp_all add: extract_subtitle_finally [OF b])
qed

text \<open>
  Claim C4. For every input path the normalizer returns a path and never raises. When
  FFmpeg is not installed, when the Temp directory cannot be made, when building or
  running the FFmpeg command raises, or when the run leaves no output file, it returns
  the input path unchanged. The pipeline then transcribes the un-normalized file: where
  the recognition of that file succeeds, \<open>extract_subtitle\<close> succeeds with its segments.
\<close>

theorem normalizer_graceful_degradation:
  "(\<exists>p. fst (preprocess_audio w input_path files) = Inr p) \<and>
   (normalizer_fails w input_path files \<longrightarrow>
      fst (preprocess_audio w input_path files) = Inr input_path) \<and>
   (\<not> ffmpeg_available w \<longrightarrow> preprocess_audio w input_path files = (Inr input_path, files)) \<and>
   (fs s file_path \<noteq> None \<and> backend_available w \<and> choose_model w model_name s = (None, s1) \<and>
    normalizer_fails w file_path (fs s1) \<and> current_model s1 = Some h \<and>
    transcribe w h file_path (if language = ''auto'' then None else Some language) =
      Inr (segments, info) \<longrightarrow>
      (\<exists>r. fst (extract_subtitle w file_path model_name language s) = Inr (Extracted r) \<and>
           \<not> res_mock r \<and>
           res_segments r = fst (collect_segments segments [] '''') \<and>
           res_language r = info_language info))"
proof (intro conjI impI)
  show "\<exists>p. fst (preprocess_audio w input_path files) = Inr p"
    by (rule preprocess_audio_never_raises)
next
  assume "normalizer_fails w input_path files"
  then show "fst (preprocess_audio w input_path files) = Inr input_path"
    by (rule preprocess_audio_fails)
next
  assume "\<not> ffmpeg_available w"
  then show "preprocess_audio w input_path files = (Inr input_path, files)"
    by (simp add: preprocess_audio_def)
next
  assume a: "fs s file_path \<noteq> None \<and> backend_available w \<and>
    choose_model w model_name s = (None, s1) \<and>
    normalizer_fails w file_path (fs s1) \<and> current_model s1 = Some h \<and>
    transcribe w h file_path (if language = ''auto'' then None else Some language) =
      Inr (segments, info)"
  then have "fst (preprocess_audio w file_path (fs s1)) = Inr file_path"
    by (simp add: preprocess_audio_fails)
  then obtain files2 where pp: "preprocess_audio w file_path (fs s1) = (Inr file_path, files2)"
    by (cases "preprocess_audio w file_path (fs s1)") simp
  obtain subtitle_segments full_text where
    cs: "collect_segments segments [] '''' = (subtitle_segments, full_text)"
    by (cases "collect_segments segments [] ''''")
  obtain subtitle_file files3 where
    sv: "save_subtitle_file w file_path subtitle_segments (s1\<lparr>fs := files2\<rparr>) =
           (subtitle_file, files3)"
    by (cases "save_subtitle_file w file_path subtitle_segments (s1\<lparr>fs := files2\<rparr>)")
  from a have tr: "transcribe w h file_path (if language = ''auto'' then None else Some language) =
      Inr (segments, info)" by simp
  have body: "extract_body w file_path model_name language s =
      (Inr (Extracted
             \<lparr>res_mock = False, res_subtitle_text = strip full_text,
              res_segments = subtitle_segments, res_subtitle_file = subtitle_file,
              res_language = info_language info, res_duration = info_duration info,
              res_model_used = current_model_name s1\<rparr>),
       Some file_path, s1\<lparr>fs := files3\<rparr>)"
    using a by (simp add: extract_body_def pp cs sv tr del: if_split)
  show "\<exists>r. fst (extract_subtitle w file_path model_name language s) = Inr (Extracted r) \<and>
           \<not> res_mock r \<and>
           res_segments r = fst (collect_segments segments [] '''') \<and>
           res_language r = info_language info"
    by (simp add: extract_subtitle_finally [OF body] cs)
qed

text \<open>Evaluation of the formatting functions and of the example deployment.\<close>

lemmas eval_format = format_0d_def zfill_def decimal_small decimal_large digit_char_def

lemma example_timestamp: "strftime_micro example_clock = ''20240517_093015_250000''"
  by (simp add: strftime_micro_def strftime_seconds_def example_clock_def eval_format)

lemma example_temp_dir:
  "temp_dir example_world = \<lparr>path_root = ''/'', path_parts = [''srv'', ''app'', ''Temp'']\<rparr>"
  by (simp add: temp_dir_def example_world_def path_join_simple temp_simple)

lemma example_scratch:
  "path_to_str (temp_output example_world) =
     ''/srv/app/Temp/preprocessed_audio_20240517_093015_250000.mp3''"
proof -
  have "temp_output example_world =
      \<lparr>path_root = ''/'',
       path_parts = [''srv'', ''app'', ''Temp'',
                     ''preprocessed_audio_20240517_093015_250000.mp3'']\<rparr>"
    unfolding temp_output_def Let_def
    by (subst path_join_simple [OF scratch_name_simple])
       (simp add: example_temp_dir, simp add: example_world_def example_timestamp)
  then show ?thesis by (simp add: path_to_str_def)
qed

lemma example_choose:
  "backend_available w \<Longrightarrow> choose_model w None example_state = (None, example_state)"
  by (simp add: choose_model_def example_state_def)

lemma example_preprocess:
  assumes "ffmpeg_available w" "mkdir_temp w = None"
    "path_to_str (temp_output w) = out" "ffmpeg_run w input out = FfmpegReturns True"
  shows "preprocess_audio w input files = (Inr out, files(out \<mapsto> Media))"
  using assms by (simp add: preprocess_audio_def preprocess_body_def Let_def)

theorem normalizer_graceful_degradation_witness:
  "normalizer_fails no_ffmpeg_world ''/srv/app/Temp/talk_20240517_090000.mp4'' (fs example_state) \<and>
   normalizer_fails failing_ffmpeg_world ''/srv/app/Temp/talk_20240517_090000.mp4''
     (fs example_state) \<and>
   fst (preprocess_audio failing_ffmpeg_world ''/srv/app/Temp/talk_20240517_090000.mp4''
          (fs example_state)) = Inr ''/srv/app/Temp/talk_20240517_090000.mp4'' \<and>
   preprocess_audio no_ffmpeg_world ''/srv/app/Temp/talk_20240517_090000.mp4'' (fs example_state) =
     (Inr ''/srv/app/Temp/talk_20240517_090000.mp4'', fs example_state) \<and>
   fs example_state ''/srv/app/Temp/talk_20240517_090000.mp4'' \<noteq> None \<and>
   backend_available no_ffmpeg_world \<and>
   choose_model no_ffmpeg_world None example_state = (None, example_state) \<and>
   current_model example_state = Some 4 \<and>
   (\<exists>r. fst (extract_subtitle no_ffmpeg_world ''/srv/app/Temp/talk_20240517_090000.mp4'' None
                ''auto'' example_state) = Inr (Extracted r) \<and>
        \<not> res_mock r \<and>
        res_segments r =
          [\<lparr>seg_start = 0, seg_end = 3, seg_text = ''A''\<rparr>,
           \<lparr>seg_start = 3, seg_end = 6, seg_text = ''B''\<rparr>,
           \<lparr>seg_start = 6, seg_end = 9, seg_text = ''C''\<rparr>] \<and>
        res_language r = ''en'')"
proof -
  let ?fp = "''/srv/app/Temp/talk_20240517_090000.mp4''"
  note t1 = normalizer_graceful_degradation [of no_ffmpeg_world ?fp "fs example_state"
      example_state ?fp None example_state 4 "''auto''" example_segments
      "\<lparr>info_language = ''en'', info_duration = 9\<rparr>"]
  note t2 = normalizer_graceful_degradation [of failing_ffmpeg_world ?fp "fs example_state"]
  have f1: "normalizer_fails no_ffmpeg_world ?fp (fs example_state)"
    by (simp add: normalizer_fails_def no_ffmpeg_world_def example_world_def)
  have f2: "normalizer_fails failing_ffmpeg_world ?fp (fs example_state)"
    by (auto simp: normalizer_fails_def failing_ffmpeg_world_def example_world_def)
  have ex: "fs example_state ?fp \<noteq> None" "current_model example_state = Some 4"
    by (simp_all add: example_state_def)
  have av: "backend_available no_ffmpeg_world" "\<not> ffmpeg_available no_ffmpeg_world"
    by (simp_all add: no_ffmpeg_world_def example_world_def)
  have cm: "choose_model no_ffmpeg_world None example_state = (None, example_state)"
    unfolding choose_model_def using ex(2) by auto
  have tr: "transcribe no_ffmpeg_world 4 ?fp (if ''auto'' = ''auto'' then None else Some ''auto'') =
      Inr (example_segments, \<lparr>info_language = ''en'', info_duration = 9\<rparr>)"
    by (simp add: no_ffmpeg_world_def example_world_def)
  have cs: "fst (collect_segments example_segments [] '''') =
      [\<lparr>seg_start = 0, seg_end = 3, seg_text = ''A''\<rparr>,
       \<lparr>seg_start = 3, seg_end = 6, seg_text = ''B''\<rparr>,
       \<lparr>seg_start = 6, seg_end = 9, seg_text = ''C''\<rparr>]"
    by code_simp
  from t1 f1 ex av cm tr
  have run: "\<exists>r. fst (extract_subtitle no_ffmpeg_world ?fp None ''auto'' example_state) =
        Inr (Extracted r) \<and> \<not> res_mock r \<and>
        res_segments r = fst (collect_segments example_segments [] '''') \<and>
        res_language r = info_language \<lparr>info_language = ''en'', info_duration = 9\<rparr>"
    by blast
  from t2 f2 have p2: "fst (preprocess_audio failing_ffmpeg_world ?fp (fs example_state)) = Inr ?fp"
    by blast
  from t1 av have p1: "preprocess_audio no_ffmpeg_world ?fp (fs example_state) =
      (Inr ?fp, fs example_state)"
    by blast
  from run cs f1 f2 p1 p2 ex av cm show ?thesis by simp
qed

lemma inside_temp_nonempty: "inside_temp w p \<Longrightarrow> p \<noteq> ''''"
proof
  assume a: "inside_temp w p" "p = ''''"
  have e: "parse_path '''' = \<lparr>path_root = '''', path_parts = []\<rparr>"
    by (simp add: parse_path_def startswith_def)
  have t: "path_parts (temp_dir w) \<noteq> []"
    by (simp add: temp_dir_def path_join_simple temp_simple)
  from a have "parent (parse_path '''') = temp_dir w"
    by (simp add: inside_temp_def parents_def e)
  then have "path_parts (parent (parse_path '''')) = path_parts (temp_dir w)"
    by simp
  with t show False
    by (simp add: e parent_def)
qed

text \<open>
  Claim C7. \<open>extract_subtitle\<close> never raises, and on every way out of its body (a returned
  result or an exception) it then runs the cleanup on the normalized path, unless that
  path is unset or is the input path, in which case nothing is deleted. So a scratch file
  that the normalizer returned is deleted whenever \<open>os.remove\<close> succeeds on it. No file
  other than the scratch file is deleted, and the input file is never deleted.
\<close>

theorem scratch_cleanup_guaranteed:
  "(\<exists>r. fst (extract_subtitle w file_path model_name language s) = Inr r) \<and>
   (case extract_body w file_path model_name language s of
      (outcome, preprocessed_file, s') \<Rightarrow>
        extract_subtitle w file_path model_name language s =
          (try_except outcome (\<lambda>e. Inr (Failed (ExtractionFailure e))),
           if preprocessed_file \<noteq> None \<and> preprocessed_file \<noteq> Some '''' \<and>
              preprocessed_file \<noteq> Some file_path
           then s'\<lparr>fs := snd (cleanup_temp_file w (the preprocessed_file) (fs s'))\<rparr>
           else s')) \<and>
   (wf_path (project_root w) \<and>
    fst (snd (extract_body w file_path model_name language s)) = Some scratch \<and>
    scratch \<noteq> file_path \<and> os_remove w scratch = None \<longrightarrow>
      scratch = path_to_str (temp_output w) \<and>
      fs (snd (extract_subtitle w file_path model_name language s)) scratch = None) \<and>
   (\<forall>p. fs s p \<noteq> None \<and> p \<noteq> path_to_str (temp_output w) \<longrightarrow>
      fs (snd (extract_subtitle w file_path model_name language s)) p \<noteq> None) \<and>
   (fs s file_path \<noteq> None \<longrightarrow>
      fs (snd (extract_subtitle w file_path model_name language s)) file_path \<noteq> None)"
proof -
  obtain outcome pf s' where b: "extract_body w file_path model_name language s = (outcome, pf, s')"
    by (cases "extract_body w file_path model_name language s")
  note fin = extract_subtitle_finally [OF b]
  have pf: "q = file_path \<or> q = path_to_str (temp_output w)" if "pf = Some q" for q
    using extract_body_preprocessed [of w file_path model_name language s q] b that by simp
  have keep: "fs s' p \<noteq> None" if "fs s p \<noteq> None" for p
    using extract_body_keeps [OF that, of w file_path model_name language] b by simp
  have c1: "\<exists>r. fst (extract_subtitle w file_path model_name language s) = Inr r"
    by (rule extract_subtitle_never_raises)
  have c3: "scratch = path_to_str (temp_output w) \<and>
      fs (snd (extract_subtitle w file_path model_name language s)) scratch = None"
    if "wf_path (project_root w)" "pf = Some scratch" "scratch \<noteq> file_path"
      "os_remove w scratch = None"
  proof -
    from pf [OF that(2)] that(3) have sc: "scratch = path_to_str (temp_output w)" by simp
    then have inside: "inside_temp w scratch"
      using scratch_inside_temp [OF that(1)] by simp
    from inside have ne: "scratch \<noteq> ''''"
      by (rule inside_temp_nonempty)
    have "snd (cleanup_temp_file w scratch (fs s')) scratch = None"
      using inside that(4) by (simp add: cleanup_temp_file_cases ne)
    with that sc ne show ?thesis
      by (auto simp: fin)
  qed
  have c4: "fs (snd (extract_subtitle w file_path model_name language s)) p \<noteq> None"
    if "fs s p \<noteq> None" "p \<noteq> path_to_str (temp_output w)" for p
  proof (cases "pf \<noteq> None \<and> pf \<noteq> Some '''' \<and> pf \<noteq> Some file_path")
    case True
    then obtain q where q: "pf = Some q" "q \<noteq> file_path" by auto
    with pf have "q = path_to_str (temp_output w)" by blast
    with that have "p \<noteq> q" by simp
    with keep [OF that(1)] True q show ?thesis
      by (auto simp: fin cleanup_temp_file_cases)
  next
    case False
    with keep [OF that(1)] show ?thesis
      by (auto simp: fin)
  qed
  have c5: "fs (snd (extract_subtitle w file_path model_name language s)) file_path \<noteq> None"
    if "fs s file_path \<noteq> None"
  proof (cases "pf \<noteq> None \<and> pf \<noteq> Some '''' \<and> pf \<noteq> Some file_path")
    case True
    then obtain q where q: "pf = Some q" "q \<noteq> file_path" by auto
    with keep [OF that] True show ?thesis
      by (auto simp: fin cleanup_temp_file_cases)
  next
    case False
    with keep [OF that] show ?thesis
      by (auto simp: fin)
  qed
  from c1 fin c3 c4 c5 show ?thesis
    by (simp add: b)
qed

lemma crashing_scratch:
  "path_to_str (temp_output crashing_world) =
     ''/srv/app/Temp/preprocessed_audio_20240517_093015_250000.mp3''"
proof -
  have "temp_output crashing_world = temp_output example_world"
    by (simp add: temp_output_def temp_dir_def crashing_world_def)
  then show ?thesis by (simp add: example_scratch)
qed

lemma crashing_body:
  "extract_body crashing_world ''/srv/app/Temp/talk_20240517_090000.mp4'' None ''auto''
     example_state =
     (Inl RuntimeError,
      Some ''/srv/app/Temp/preprocessed_audio_20240517_093015_250000.mp3'',
      example_state
        \<lparr>fs := (fs example_state)
                 (''/srv/app/Temp/preprocessed_audio_20240517_093015_250000.mp3'' \<mapsto> Media)\<rparr>)"
proof -
  let ?fp = "''/srv/app/Temp/talk_20240517_090000.mp4''"
  let ?scratch = "''/srv/app/Temp/preprocessed_audio_20240517_093015_250000.mp3''"
  have w: "backend_available crashing_world" "ffmpeg_available crashing_world"
      "mkdir_temp crashing_world = None"
      "ffmpeg_run crashing_world ?fp ?scratch = FfmpegReturns True"
      "transcribe crashing_world 4 ?scratch None = Inl RuntimeError"
    by (simp_all add: crashing_world_def example_world_def)
  have ex: "fs example_state ?fp \<noteq> None" "current_model example_state = Some 4"
    by (simp_all add: example_state_def)
  have pp: "preprocess_audio crashing_world ?fp (fs example_state) =
      (Inr ?scratch, (fs example_state)(?scratch \<mapsto> Media))"
    by (rule example_preprocess [OF w(2) w(3) crashing_scratch w(4)])
  show ?thesis
    by (simp add: extract_body_def ex example_choose w pp)
qed

theorem scratch_cleanup_guaranteed_witness:
  "wf_path (project_root crashing_world) \<and>
   fst (snd (extract_body crashing_world ''/srv/app/Temp/talk_20240517_090000.mp4'' None ''auto''
               example_state)) =
     Some ''/srv/app/Temp/preprocessed_audio_20240517_093015_250000.mp3'' \<and>
   ''/srv/app/Temp/preprocessed_audio_20240517_093015_250000.mp3'' \<noteq>
     ''/srv/app/Temp/talk_20240517_090000.mp4'' \<and>
   os_remove crashing_world ''/srv/app/Temp/preprocessed_audio_20240517_093015_250000.mp3'' = None \<and>
   fst (extract_subtitle crashing_world ''/srv/app/Temp/talk_20240517_090000.mp4'' None ''auto''
          example_state) = Inr (Failed (ExtractionFailure RuntimeError)) \<and>
   fs (snd (extract_subtitle crashing_world ''/srv/app/Temp/talk_20240517_090000.mp4'' None ''auto''
              example_state))
      ''/srv/app/Temp/preprocessed_audio_20240517_093015_250000.mp3'' = None \<and>
   fs example_state ''/srv/app/Temp/talk_20240517_090000.mp4'' \<noteq> None \<and>
   fs (snd (extract_subtitle crashing_world ''/srv/app/Temp/talk_20240517_090000.mp4'' None ''auto''
              example_state))
      ''/srv/app/Temp/talk_20240517_090000.mp4'' \<noteq> None \<and>
   wf_path (project_root example_world) \<and>
   fst (snd (extract_body example_world ''/srv/app/Temp/talk_20240517_090000.mp4'' None ''auto''
               example_state)) =
     Some ''/srv/app/Temp/preprocessed_audio_20240517_093015_250000.mp3'' \<and>
   os_remove example_world ''/srv/app/Temp/preprocessed_audio_20240517_093015_250000.mp3'' = None \<and>
   fs (snd (extract_subtitle example_world ''/srv/app/Temp/talk_20240517_090000.mp4'' None ''auto''
              example_state))
      ''/srv/app/Temp/preprocessed_audio_20240517_093015_250000.mp3'' = None"
proof -
  let ?fp = "''/srv/app/Temp/talk_20240517_090000.mp4''"
  let ?scratch = "''/srv/app/Temp/preprocessed_audio_20240517_093015_250000.mp3''"
  note t1 = scratch_cleanup_guaranteed [of crashing_world ?fp None "''auto''" example_state ?scratch]
  note t2 = scratch_cleanup_guaranteed [of example_world ?fp None "''auto''" example_state ?scratch]
  have wf: "wf_path (project_root crashing_world)" "wf_path (project_root example_world)"
    by (simp_all add: crashing_world_def example_world_def wf_path_def)
  have b1: "fst (snd (extract_body crashing_world ?fp None ''auto'' example_state)) = Some ?scratch"
    by (simp add: crashing_body)
  have w: "backend_available example_world" "ffmpeg_available example_world"
      "mkdir_temp example_world = None"
      "ffmpeg_run example_world ?fp ?scratch = FfmpegReturns True"
    by (simp_all add: example_world_def)
  have ex: "fs example_state ?fp \<noteq> None"
    by (simp add: example_state_def)
  have pp: "preprocess_audio example_world ?fp (fs example_state) =
      (Inr ?scratch, (fs example_state)(?scratch \<mapsto> Media))"
    by (rule example_preprocess [OF w(2) w(3) example_scratch w(4)])
  have b2: "fst (snd (extract_body example_world ?fp None ''auto'' example_state)) = Some ?scratch"
    by (rule extract_body_after_preprocess [OF ex example_choose [OF w(1)] w(1) pp])
  have r1: "fst (extract_subtitle crashing_world ?fp None ''auto'' example_state) =
      Inr (Failed (ExtractionFailure RuntimeError))"
    by (simp add: extract_subtitle_finally [OF crashing_body])
  have rm: "os_remove crashing_world ?scratch = None" "os_remove example_world ?scratch = None"
    by (simp_all add: crashing_world_def example_world_def)
  have ne: "?scratch \<noteq> ?fp" by simp
  from t1 wf(1) b1 ne rm(1)
  have d1: "fs (snd (extract_subtitle crashing_world ?fp None ''auto'' example_state)) ?scratch = None"
    by blast
  from t2 wf(2) b2 ne rm(2)
  have d2: "fs (snd (extract_subtitle example_world ?fp None ''auto'' example_state)) ?scratch = None"
    by blast
  from t1 ex
  have k1: "fs (snd (extract_subtitle crashing_world ?fp None ''auto'' example_state)) ?fp \<noteq> None"
    by blast
  from wf b1 ne rm r1 d1 ex k1 b2 d2 show ?thesis
    by blast
qed

section \<open>Subtitle file names\<close>

lemma digit_value_digit_char: "d < 10 \<Longrightarrow> digit_value (digit_char d) = d"
proof -
  assume "d < 10"
  then have "d \<in> {0, 1, 2, 3, 4, 5, 6, 7, 8, 9}" by auto
  then show ?thesis
    by (auto simp: digit_value_def digit_char_def)
qed

lemma digits_value_snoc: "digits_value (s @ [c]) = 10 * digits_value s + digit_value c"
  by (simp add: digits_value_def)

lemma digits_value_decimal: "digits_value (decimal n) = n"
proof (induction n rule: decimal.induct)
  case (1 n)
  show ?case
  proof (cases "n < 10")
    case True
    then show ?thesis
      by (simp add: decimal_small digits_value_def digit_value_digit_char)
  next
    case False
    with 1 show ?thesis
      by (simp add: decimal_large digits_value_snoc digit_value_digit_char)
  qed
qed

lemma foldl_zeros:
  "foldl (\<lambda>acc c. 10 * acc + digit_value c) 0 (replicate k (CHR ''0'')) = 0"
  by (induction k) (simp_all add: digit_value_def)

lemma digits_value_zfill: "digits_value (zfill w (decimal n)) = n"
  using digits_value_decimal [of n] by (simp add: zfill_def digits_value_def foldl_zeros)

lemma format_0d_inj: "format_0d w (int a) = format_0d w (int b) \<Longrightarrow> a = b"
proof -
  assume "format_0d w (int a) = format_0d w (int b)"
  then have "zfill w (decimal a) = zfill w (decimal b)"
    by (simp add: format_0d_def)
  then have "digits_value (zfill w (decimal a)) = digits_value (zfill w (decimal b))"
    by simp
  then show ?thesis by (simp add: digits_value_zfill)
qed

lemma length_format_0d: "0 < w \<Longrightarrow> a < 10 ^ w \<Longrightarrow> length (format_0d w (int a)) = w"
  using format_0d_fixed [of "int a" w] by (simp add: of_nat_less_iff [symmetric] del: of_nat_less_iff)

lemma length_strftime_seconds: "valid_datetime d \<Longrightarrow> length (strftime_seconds d) = 15"
  by (simp add: strftime_seconds_def valid_datetime_def length_format_0d)

text \<open>The time stamp of a file name tells two valid clock readings apart up to the second.\<close>

lemma strftime_seconds_inj:
  assumes "valid_datetime d" "valid_datetime e"
  shows "strftime_seconds d = strftime_seconds e \<longleftrightarrow> same_second d e"
proof
  assume "same_second d e"
  then show "strftime_seconds d = strftime_seconds e"
    by (simp add: same_second_def strftime_seconds_def)
next
  assume eq: "strftime_seconds d = strftime_seconds e"
  have len: "length (format_0d 4 (int (dt_year d))) = length (format_0d 4 (int (dt_year e)))"
      "length (format_0d 2 (int (dt_month d))) = length (format_0d 2 (int (dt_month e)))"
      "length (format_0d 2 (int (dt_day d))) = length (format_0d 2 (int (dt_day e)))"
      "length (format_0d 2 (int (dt_hour d))) = length (format_0d 2 (int (dt_hour e)))"
      "length (format_0d 2 (int (dt_minute d))) = length (format_0d 2 (int (dt_minute e)))"
    using assms by (simp_all add: valid_datetime_def length_format_0d)
  from eq len have
    "format_0d 4 (int (dt_year d)) = format_0d 4 (int (dt_year e))"
    "format_0d 2 (int (dt_month d)) = format_0d 2 (int (dt_month e))"
    "format_0d 2 (int (dt_day d)) = format_0d 2 (int (dt_day e))"
    "format_0d 2 (int (dt_hour d)) = format_0d 2 (int (dt_hour e))"
    "format_0d 2 (int (dt_minute d)) = format_0d 2 (int (dt_minute e))"
    "format_0d 2 (int (dt_second d)) = format_0d 2 (int (dt_second e))"
    by (simp_all add: strftime_seconds_def)
  then show "same_second d e"
    by (simp add: same_second_def format_0d_inj)
qed

lemma join_sep_snoc:
  "join_sep (ps @ [n]) = (if ps = [] then n else join_sep ps @ ''/'' @ n)"
  by (induction ps rule: join_sep.induct) simp_all

lemma path_to_str_join_inj:
  assumes "simple_name m" "simple_name n"
  shows "path_to_str (path_join p m) = path_to_str (path_join p n) \<longleftrightarrow> m = n"
  using assms by (auto simp: path_join_simple path_to_str_def join_sep_snoc)

lemma split_sep_no_sep: "\<forall>p \<in> set (split_sep c s). c \<notin> set p"
  by (induction s) (auto split: list.splits)

lemma path_stem_no_slash: "CHR ''/'' \<notin> set (path_stem (parse_path s))"
proof -
  have parts: "\<forall>p \<in> set (path_parts (parse_path s)). CHR ''/'' \<notin> set p"
    using split_sep_no_sep [of "CHR ''/''" s] by (simp add: parse_path_def)
  have name: "CHR ''/'' \<notin> set (path_name (parse_path s))"
    using parts by (simp add: path_name_def)
  show ?thesis
    unfolding path_stem_def stem_def Let_def
    using name by (auto dest: in_set_takeD)
qed

lemma output_format_known: "output_format_of s \<in> set SUBTITLE_AVAILABLE_FORMATS"
  by (simp add: output_format_of_def Let_def SUBTITLE_AVAILABLE_FORMATS_def)

lemma subtitle_filename_simple: "simple_name (subtitle_filename w original s)"
proof -
  have f: "output_format_of s = ''srt'' \<or> output_format_of s = ''vtt''"
    using output_format_known [of s] by (simp add: SUBTITLE_AVAILABLE_FORMATS_def)
  have "CHR ''/'' \<notin> set (subtitle_filename w original s)"
    using f by (auto simp: subtitle_filename_def Let_def path_stem_no_slash strftime_seconds_no_slash)
  moreover have "CHR ''_'' \<in> set (subtitle_filename w original s)"
    by (simp add: subtitle_filename_def Let_def)
  ultimately show ?thesis
    by (auto simp: simple_name_def)
qed

lemma subtitle_filename_eq:
  assumes "valid_datetime (now_save w1)" "valid_datetime (now_save w2)"
  shows "subtitle_filename w1 original s1 = subtitle_filename w2 original s2 \<longleftrightarrow>
     same_second (now_save w1) (now_save w2) \<and> output_format_of s1 = output_format_of s2"
proof -
  have "length (strftime_seconds (now_save w1)) = length (strftime_seconds (now_save w2))"
    using assms by (simp add: length_strftime_seconds)
  then have "subtitle_filename w1 original s1 = subtitle_filename w2 original s2 \<longleftrightarrow>
      strftime_seconds (now_save w1) = strftime_seconds (now_save w2) \<and>
      output_format_of s1 = output_format_of s2"
    by (simp add: subtitle_filename_def Let_def)
  then show ?thesis
    using strftime_seconds_inj [OF assms] by simp
qed

lemma save_subtitle_file_ok:
  assumes "write_subtitle w = WriteOk"
  shows "save_subtitle_file w original segments s =
     (path_to_str (path_join (subtitles_folder w) (subtitle_filename w original s)),
      (fs s)(path_to_str (path_join (subtitles_folder w) (subtitle_filename w original s)) \<mapsto>
         Document (if output_format_of s = ''vtt'' then generate_vtt_content segments
                   else generate_srt_content segments)))"
  using assms by (simp add: save_subtitle_file_def Let_def)

text \<open>
  Claim C9, as the program has it. The name of the subtitle file is the source stem, the
  capture time at a resolution of one second, and the format. So two calls on the same
  source write files of the same name exactly when their capture times lie in the same
  second and the configured format is the same; calls whose capture times differ in the
  second (or in any larger unit) write files of distinct names and paths.
\<close>

theorem subtitle_filename_distinct:
  "valid_datetime (now_save w1) \<and> valid_datetime (now_save w2) \<longrightarrow>
     (subtitle_filename w1 original s1 = subtitle_filename w2 original s2 \<longleftrightarrow>
        same_second (now_save w1) (now_save w2) \<and> output_format_of s1 = output_format_of s2) \<and>
     (subtitles_folder w1 = subtitles_folder w2 \<and>
      write_subtitle w1 = WriteOk \<and> write_subtitle w2 = WriteOk \<longrightarrow>
        (fst (save_subtitle_file w1 original segments1 s1) =
         fst (save_subtitle_file w2 original segments2 s2) \<longleftrightarrow>
           same_second (now_save w1) (now_save w2) \<and> output_format_of s1 = output_format_of s2))"
proof (intro impI conjI)
  assume v: "valid_datetime (now_save w1) \<and> valid_datetime (now_save w2)"
  then show name: "subtitle_filename w1 original s1 = subtitle_filename w2 original s2 \<longleftrightarrow>
        same_second (now_save w1) (now_save w2) \<and> output_format_of s1 = output_format_of s2"
    by (simp add: subtitle_filename_eq)
  assume w: "subtitles_folder w1 = subtitles_folder w2 \<and>
      write_subtitle w1 = WriteOk \<and> write_subtitle w2 = WriteOk"
  have "fst (save_subtitle_file w1 original segments1 s1) =
         fst (save_subtitle_file w2 original segments2 s2) \<longleftrightarrow>
        subtitle_filename w1 original s1 = subtitle_filename w2 original s2"
    using w path_to_str_join_inj [OF subtitle_filename_simple subtitle_filename_simple,
        of "subtitles_folder w2" w1 original s1 w2 original s2]
    by (simp add: save_subtitle_file_ok)
  with name show "fst (save_subtitle_file w1 original segments1 s1) =
         fst (save_subtitle_file w2 original segments2 s2) \<longleftrightarrow>
           same_second (now_save w1) (now_save w2) \<and> output_format_of s1 = output_format_of s2"
    by simp
qed

lemma example_format: "output_format_of example_state = ''vtt''"
  by (simp add: output_format_of_def Let_def example_state_def lower_def lower_char_def
      SUBTITLE_AVAILABLE_FORMATS_def)

lemma example_stem:
  "path_stem (parse_path ''/srv/app/Temp/talk_20240517_090000.mp4'') = ''talk_20240517_090000''"
  by code_simp

lemma example_filename:
  "subtitle_filename example_world ''/srv/app/Temp/talk_20240517_090000.mp4'' example_state =
     ''talk_20240517_090000_20240517_093020.vtt''"
  by (simp add: subtitle_filename_def Let_def example_stem example_format)
     (simp add: example_world_def example_clock_def strftime_seconds_def eval_format)

lemma later_filename:
  "subtitle_filename later_world ''/srv/app/Temp/talk_20240517_090000.mp4'' example_state =
     ''talk_20240517_090000_20240517_093020.vtt''"
  by (simp add: subtitle_filename_def Let_def example_stem example_format)
     (simp add: later_world_def example_world_def example_clock_def strftime_seconds_def eval_format)

lemma example_subtitle_path:
  "path_to_str (path_join \<lparr>path_root = ''/'', path_parts = [''srv'', ''app'', ''Subtitles'']\<rparr>
      ''talk_20240517_090000_20240517_093020.vtt'') =
     ''/srv/app/Subtitles/talk_20240517_090000_20240517_093020.vtt''"
proof -
  have "simple_name ''talk_20240517_090000_20240517_093020.vtt''"
    by (simp add: simple_name_def)
  then show ?thesis
    by (simp add: path_join_simple path_to_str_def)
qed

theorem subtitle_filename_distinct_witness:
  "valid_datetime (now_save example_world) \<and> valid_datetime (now_save next_second_world) \<and>
   \<not> same_second (now_save example_world) (now_save next_second_world) \<and>
   subtitle_filename example_world ''/srv/app/Temp/talk_20240517_090000.mp4'' example_state \<noteq>
     subtitle_filename next_second_world ''/srv/app/Temp/talk_20240517_090000.mp4'' example_state \<and>
   subtitles_folder example_world = subtitles_folder next_second_world \<and>
   write_subtitle example_world = WriteOk \<and> write_subtitle next_second_world = WriteOk \<and>
   fst (save_subtitle_file example_world ''/srv/app/Temp/talk_20240517_090000.mp4''
          example_segments example_state) \<noteq>
     fst (save_subtitle_file next_second_world ''/srv/app/Temp/talk_20240517_090000.mp4''
            example_segments example_state)"
proof -
  note t = subtitle_filename_distinct [of example_world next_second_world
      "''/srv/app/Temp/talk_20240517_090000.mp4''" example_state example_state
      example_segments example_segments]
  have v: "valid_datetime (now_save example_world)" "valid_datetime (now_save next_second_world)"
    by (simp_all add: valid_datetime_def example_world_def next_second_world_def example_clock_def)
  have d: "\<not> same_second (now_save example_world) (now_save next_second_world)"
    by (simp add: same_second_def example_world_def next_second_world_def example_clock_def)
  have w: "subtitles_folder example_world = subtitles_folder next_second_world"
      "write_subtitle example_world = WriteOk" "write_subtitle next_second_world = WriteOk"
    by (simp_all add: example_world_def next_second_world_def)
  from t v d w show ?thesis by blast
qed

text \<open>
  Claim C9 as stated fails for two calls within one second: here the capture times
  differ by nine tenths of a second, both calls write the same file, and the document of
  the second call replaces that of the first.
\<close>

theorem subtitle_filename_distinct_counterexample:
  "now_save example_world \<noteq> now_save later_world \<and>
   fst (save_subtitle_file example_world ''/srv/app/Temp/talk_20240517_090000.mp4'' []
          example_state) =
     ''/srv/app/Subtitles/talk_20240517_090000_20240517_093020.vtt'' \<and>
   fst (save_subtitle_file later_world ''/srv/app/Temp/talk_20240517_090000.mp4''
          example_segments
          (example_state\<lparr>fs := snd (save_subtitle_file example_world
             ''/srv/app/Temp/talk_20240517_090000.mp4'' [] example_state)\<rparr>)) =
     ''/srv/app/Subtitles/talk_20240517_090000_20240517_093020.vtt'' \<and>
   snd (save_subtitle_file example_world ''/srv/app/Temp/talk_20240517_090000.mp4'' []
          example_state)
     ''/srv/app/Subtitles/talk_20240517_090000_20240517_093020.vtt'' =
     Some (Document (generate_vtt_content [])) \<and>
   snd (save_subtitle_file later_world ''/srv/app/Temp/talk_20240517_090000.mp4''
          example_segments
          (example_state\<lparr>fs := snd (save_subtitle_file example_world
             ''/srv/app/Temp/talk_20240517_090000.mp4'' [] example_state)\<rparr>))
     ''/srv/app/Subtitles/talk_20240517_090000_20240517_093020.vtt'' =
     Some (Document (generate_vtt_content example_segments)) \<and>
   generate_vtt_content [] \<noteq> generate_vtt_content example_segments"
proof -
  let ?fp = "''/srv/app/Temp/talk_20240517_090000.mp4''"
  let ?target = "''/srv/app/Subtitles/talk_20240517_090000_20240517_093020.vtt''"
  have w: "write_subtitle example_world = WriteOk" "write_subtitle later_world = WriteOk"
      "subtitles_folder example_world =
         \<lparr>path_root = ''/'', path_parts = [''srv'', ''app'', ''Subtitles'']\<rparr>"
      "subtitles_folder later_world =
         \<lparr>path_root = ''/'', path_parts = [''srv'', ''app'', ''Subtitles'']\<rparr>"
    by (simp_all add: example_world_def later_world_def)
  have clock: "now_save example_world \<noteq> now_save later_world"
    by (simp add: example_world_def later_world_def example_clock_def)
  have fmt: "output_format_of (example_state\<lparr>fs := files\<rparr>) = ''vtt''" for files
    using example_format by (simp add: output_format_of_def)
  have name2: "subtitle_filename later_world ?fp (example_state\<lparr>fs := files\<rparr>) =
      ''talk_20240517_090000_20240517_093020.vtt''" for files
    using later_filename fmt [of files] example_format by (simp add: subtitle_filename_def)
  have a: "save_subtitle_file example_world ?fp [] example_state =
      (?target, (fs example_state)(?target \<mapsto> Document (generate_vtt_content [])))"
    by (simp add: save_subtitle_file_ok [OF w(1)] example_filename w(3) example_subtitle_path
        example_format)
  have b: "save_subtitle_file later_world ?fp example_segments (example_state\<lparr>fs := files\<rparr>) =
      (?target, files(?target \<mapsto> Document (generate_vtt_content example_segments)))" for files
    by (simp add: save_subtitle_file_ok [OF w(2)] name2 w(4) example_subtitle_path fmt)
  have "length (generate_vtt_content []) \<noteq> length (generate_vtt_content example_segments)"
    by (simp add: generate_vtt_content_def vtt_loop_blocks example_segments_def vtt_block_def)
  then have differ: "generate_vtt_content [] \<noteq> generate_vtt_content example_segments"
    by auto
  from clock differ show ?thesis
    by (simp add: a b)
qed

end
